theory Spec2Isabelle
  imports Complex_Main "HOL-Library.Word"
begin

unbundle bit_operations_syntax

section \<open>Machine model: bytes, addresses, memory\<close>

text \<open>
  The plugin is built for 32-bit x86: a pointer is a 32-bit address, \<open>uchar\<close> is a
  byte, and code is read through \<open>uchar *\<close>. Memory is a total map from addresses
  to bytes; \<open>NULL\<close> is the address 0.
\<close>

type_synonym byte = "8 word"
type_synonym addr = "32 word"
type_synonym mem = "addr \<Rightarrow> byte"

definition NULL :: addr where
  "NULL = 0"

text \<open>
  Modelled from the spec: \<open>mem_load32\<close> of mem.h, which is not among the sources
  (the spec's \<open>read_u32_at\<close>): the unaligned little-endian 32-bit load of x86.
\<close>

definition mem_load32 :: "mem \<Rightarrow> addr \<Rightarrow> 32 word" where
  "mem_load32 m p =
     ucast (m p) OR push_bit 8 (ucast (m (p + 1))) OR
     push_bit 16 (ucast (m (p + 2))) OR push_bit 24 (ucast (m (p + 3)))"

text \<open>
  Modelled from the spec: \<open>mem_loadptr\<close> of mem.h, which is not among the sources:
  on the 32-bit target a pointer load is a 32-bit load.
\<close>

definition mem_loadptr :: "mem \<Rightarrow> addr \<Rightarrow> addr" where
  "mem_loadptr m p = mem_load32 m p"

text \<open>
  Modelled from the spec: the opcode constants of x86.h, which is not among the
  sources. \<open>X86_FLTBLK2\<close> is the opcode byte of the FLD family (\<open>fld dword ptr [D]\<close>
  is \<open>D9 05 D\<close>), \<open>X86_CALL\<close> the near relative call with a 32-bit displacement,
  \<open>X86_ALUMI8S\<close> the arithmetic/compare with a sign-extended 8-bit immediate,
  \<open>X86_MOVRMW\<close> the move from memory into a register, and \<open>X86_MODRM\<close> packs
  the three fields of a ModRM byte.
\<close>

definition X86_FLTBLK2 :: byte where
  "X86_FLTBLK2 = 0xD9"

definition X86_CALL :: byte where
  "X86_CALL = 0xE8"

definition X86_ALUMI8S :: byte where
  "X86_ALUMI8S = 0x83"

definition X86_MOVRMW :: byte where
  "X86_MOVRMW = 0x8B"

definition X86_MODRM :: "byte \<Rightarrow> byte \<Rightarrow> byte \<Rightarrow> byte" where
  "X86_MODRM md reg rm = push_bit 6 md OR push_bit 3 reg OR rm"

section \<open>The global scalar extractor\<close>

text \<open>
  \<^verbatim>\<open>
  float *floatgetter(void *fn) {
      uchar *inst = (uchar *)fn;
      if (inst[0] != X86_FLTBLK2 || inst[1] != 0x05) return NULL;
      else return (float *)mem_loadptr(inst + 2);
  }
  \<close>
\<close>

definition floatgetter :: "mem \<Rightarrow> addr \<Rightarrow> addr" where
  "floatgetter m fn =
     (if m fn \<noteq> X86_FLTBLK2 \<or> m (fn + 1) \<noteq> 0x05 then NULL
      else mem_loadptr m (fn + 2))"

text \<open>
  A byte sequence laid out in memory from an address on, and the little-endian
  encoding of a 32-bit operand: the vocabulary of the synthetic instruction streams
  the properties speak about.
\<close>

definition holds_bytes :: "mem \<Rightarrow> addr \<Rightarrow> byte list \<Rightarrow> bool" where
  "holds_bytes m a bs = (map (\<lambda>k. m (a + of_nat k)) [0..<length bs] = bs)"

definition le32 :: "32 word \<Rightarrow> byte list" where
  "le32 d = [ucast d, ucast (drop_bit 8 d), ucast (drop_bit 16 d), ucast (drop_bit 24 d)]"

fun poke :: "mem \<Rightarrow> addr \<Rightarrow> byte list \<Rightarrow> mem" where
  "poke m a [] = m"
| "poke m a (b # bs) = poke (m(a := b)) (a + 1) bs"


definition peek :: "mem \<Rightarrow> addr \<Rightarrow> nat \<Rightarrow> byte list" where
  "peek m a n = map (\<lambda>k. m (a + of_nat k)) [0..<n]"

section \<open>The instruction stream walker\<close>

text \<open>
  \<open>x86_len\<close> (x86.h) is not among the sources; the code only calls it, so the model
  takes it as a parameter: a walker maps the memory and the address of an instruction
  to that instruction's length, or to \<open>-1\<close> when it cannot size the encoding.
\<close>

type_synonym walker = "mem \<Rightarrow> addr \<Rightarrow> int"

text \<open>
  The walker's contract in the spec: a byte count of at least one, or a decode
  failure.
\<close>

definition walker_ok :: "walker \<Rightarrow> mem \<Rightarrow> bool" where
  "walker_ok x86_len m = (\<forall>p. x86_len m p = - 1 \<or> 1 \<le> x86_len m p)"

text \<open>What a scan loop ends with: the resolved target, the window's end, or an
  instruction the walker could not size (the address it stood at).\<close>

datatype scan = Hit addr | Exhausted | Undecodable addr

section \<open>The float-call locator\<close>

text \<open>
  \<^verbatim>\<open>
  void *find_floatcall(void *fn, const char *name) {
      const uchar *ins = (const uchar *)fn;
      bool nextcall = false;
      for (const uchar *p = ins; p - ins < 384;) {
          if (p[0] == X86_FLTBLK2 && (p[1] & 0x38) == 0) {
              nextcall = true;
          } else if (nextcall && p[0] == X86_CALL) {
              int offset = (int)mem_load32(p + 1);
              return (void*)(p + x86_len(p) + offset);
          }
          NEXT_INSN(p, name);
      }
      return NULL;
  }
  \<close>
  The loop state is the offset \<open>p - ins\<close> and the flag. Modelled from the spec:
  \<open>NEXT_INSN\<close> of x86util.h, which is not among the sources: it advances \<open>p\<close> by
  the walker's length, and when the walker cannot size the instruction it reports a
  decode error with the caller's label and leaves the enclosing function, returning
  false (the null pointer here). A walker that returns a length below one can keep the
  loop from ending, so the loop is a partial function: \<open>None\<close> is "never returns".
\<close>

partial_function (option) floatcall_loop ::
  "walker \<Rightarrow> mem \<Rightarrow> addr \<Rightarrow> int \<Rightarrow> bool \<Rightarrow> scan option" where
  "floatcall_loop x86_len m ins off nextcall =
     (if off < 384 then
        (let p = ins + of_int off in
         if m p = X86_FLTBLK2 \<and> (m (p + 1) AND 0x38) = 0 then
           (if x86_len m p = - 1 then Some (Undecodable p)
            else floatcall_loop x86_len m ins (off + x86_len m p) True)
         else if nextcall \<and> m p = X86_CALL then
           Some (Hit (p + of_int (x86_len m p) + mem_load32 m (p + 1)))
         else
           (if x86_len m p = - 1 then Some (Undecodable p)
            else floatcall_loop x86_len m ins (off + x86_len m p) nextcall))
      else Some Exhausted)"

text \<open>Console and error output, in the order it is printed.\<close>

datatype msg = Warn string | Errorx string | DecodeError addr string

text \<open>The pointer a scan hands back to C: the target, or \<open>NULL\<close>.\<close>

fun scan_ptr :: "scan \<Rightarrow> addr" where
  "scan_ptr (Hit a) = a"
| "scan_ptr Exhausted = NULL"
| "scan_ptr (Undecodable p) = NULL"

fun scan_msgs :: "string \<Rightarrow> scan \<Rightarrow> msg list" where
  "scan_msgs name (Undecodable p) = [DecodeError p name]"
| "scan_msgs name r = []"

definition find_floatcall ::
  "walker \<Rightarrow> mem \<Rightarrow> addr \<Rightarrow> string \<Rightarrow> (addr \<times> msg list) option" where
  "find_floatcall x86_len m fn name =
     map_option (\<lambda>r. (scan_ptr r, scan_msgs name r)) (floatcall_loop x86_len m fn 0 False)"

text \<open>
  The instruction stream as the walker sees it from an entry point: the offset of
  the \<open>k\<close>-th instruction.
\<close>

fun insn_off :: "walker \<Rightarrow> mem \<Rightarrow> addr \<Rightarrow> nat \<Rightarrow> int" where
  "insn_off x86_len m ins 0 = 0"
| "insn_off x86_len m ins (Suc k) =
     insn_off x86_len m ins k + x86_len m (ins + of_int (insn_off x86_len m ins k))"

definition insn_at :: "walker \<Rightarrow> mem \<Rightarrow> addr \<Rightarrow> nat \<Rightarrow> addr" where
  "insn_at x86_len m ins k = ins + of_int (insn_off x86_len m ins k)"

text \<open>The two idioms of the locator, as predicates on an instruction address.\<close>

definition is_fld :: "mem \<Rightarrow> addr \<Rightarrow> bool" where
  "is_fld m p = (m p = X86_FLTBLK2 \<and> (m (p + 1) AND 0x38) = 0)"

definition is_call :: "mem \<Rightarrow> addr \<Rightarrow> bool" where
  "is_call m p = (m p = X86_CALL)"

text \<open>Whether some instruction before the \<open>k\<close>-th is the arming idiom.\<close>

definition armed_before :: "walker \<Rightarrow> mem \<Rightarrow> addr \<Rightarrow> nat \<Rightarrow> bool" where
  "armed_before x86_len m ins k = (\<exists>i<k. is_fld m (insn_at x86_len m ins i))"

text \<open>
  A stream whose \<open>j\<close>-th instruction is the confirming call: every instruction
  before it has a length, one of them is the arming idiom, no call stands between the
  first arming instruction and it, and it starts inside the window.
\<close>

definition confirming_call :: "walker \<Rightarrow> mem \<Rightarrow> addr \<Rightarrow> nat \<Rightarrow> bool" where
  "confirming_call x86_len m ins j =
     (armed_before x86_len m ins j \<and> is_call m (insn_at x86_len m ins j) \<and>
      insn_off x86_len m ins j < 384 \<and>
      (\<forall>i<j. 1 \<le> x86_len m (insn_at x86_len m ins i) \<and>
         \<not> (armed_before x86_len m ins i \<and> is_call m (insn_at x86_len m ins i))))"

text \<open>
  A stream in which no call follows an arming instruction inside the window.
\<close>

definition never_confirmed :: "walker \<Rightarrow> mem \<Rightarrow> addr \<Rightarrow> bool" where
  "never_confirmed x86_len m ins =
     (\<forall>k. (\<forall>i<k. 1 \<le> x86_len m (insn_at x86_len m ins i)) \<and>
          insn_off x86_len m ins k < 384 \<and> armed_before x86_len m ins k \<longrightarrow>
          \<not> is_call m (insn_at x86_len m ins k))"

text \<open>
  Two memories that hold the same bytes at the offsets \<open>0 .. n - 1\<close> from an
  address, and on which the walker gives the same lengths at the offsets
  \<open>0 .. w - 1\<close>.
\<close>

definition same_bytes :: "mem \<Rightarrow> mem \<Rightarrow> addr \<Rightarrow> int \<Rightarrow> bool" where
  "same_bytes m m' a n = (\<forall>k. 0 \<le> k \<and> k < n \<longrightarrow> m' (a + of_int k) = m (a + of_int k))"

definition same_lengths :: "walker \<Rightarrow> mem \<Rightarrow> mem \<Rightarrow> addr \<Rightarrow> int \<Rightarrow> bool" where
  "same_lengths x86_len m m' a w =
     (\<forall>k. 0 \<le> k \<and> k < w \<longrightarrow> x86_len m' (a + of_int k) = x86_len m (a + of_int k))"

text \<open>
  A small walker for synthetic streams, sizing the few encodings they use:
  \<open>nop\<close>, \<open>ret\<close> and \<open>push ebp\<close> (one byte), the near call \<open>E8 rel32\<close> (five), and for \<open>D9\<close>,
  \<open>8B\<close> and \<open>83\<close> the register form, the direct 32-bit displacement form and the
  8-bit displacement form of the ModRM byte. Everything else it cannot size.
\<close>

definition toy_len :: walker where
  "toy_len m p =
     (let b = m p; r = m (p + 1) in
      if b = 0x90 \<or> b = 0xC3 \<or> b = 0x55 then 1
      else if b = 0xE8 then 5
      else if b = 0xD9 \<or> b = 0x8B then
        (if r AND 0xC0 = 0xC0 then 2
         else if r AND 0xC7 = 0x05 then 6
         else if r AND 0xC0 = 0x40 \<and> r AND 0x07 \<noteq> 4 then 3
         else - 1)
      else if b = 0x83 then
        (if r AND 0xC0 = 0xC0 then 3
         else if r AND 0xC0 = 0x40 \<and> r AND 0x07 \<noteq> 4 then 4
         else - 1)
      else - 1)"

text \<open>
  Synthetic streams: a memory given by its bytes as a function of the offset from an
  entry address, and a byte list followed by \<open>nop\<close>s.
\<close>

definition stream_at :: "addr \<Rightarrow> (int \<Rightarrow> byte) \<Rightarrow> mem" where
  "stream_at e f a = f (uint (a - e))"

definition bytes_then_nops :: "byte list \<Rightarrow> int \<Rightarrow> byte" where
  "bytes_then_nops bs k = (if 0 \<le> k \<and> k < int (length bs) then bs ! nat k else 0x90)"

text \<open>
  Three synthetic streams. \<open>armed_call\<close>: \<open>fld st(0); nop; call +0x10\<close>.
  \<open>no_call\<close>: \<open>fld st(0)\<close> and nothing but \<open>nop\<close>s after it. \<open>late_call\<close>:
  \<open>fld st(0)\<close>, \<open>nop\<close>s, and a call whose opcode byte is the last byte of the
  384-byte window.
\<close>

definition armed_call :: "int \<Rightarrow> byte" where
  "armed_call = bytes_then_nops [0xD9, 0xC0, 0x90, 0xE8, 0x10, 0, 0, 0]"

definition no_call :: "int \<Rightarrow> byte" where
  "no_call = bytes_then_nops [0xD9, 0xC0]"

definition late_call :: "int \<Rightarrow> byte" where
  "late_call = (bytes_then_nops [0xD9, 0xC0])(383 := 0xE8)"

section \<open>The inline hook engine\<close>

text \<open>
  Modelled from the spec: the hook engine (hook.h and hook.c, \<open>hook_inline\<close> and
  \<open>unhook_inline\<close>) is not among the sources; what follows is section 4.5 of the
  spec. A hook record holds the target address, the original bytes retained from the
  target, the trampoline's address and whether the hook is installed.
\<close>

record HookRecord =
  targetAddress :: addr
  originalBytes :: "byte list"
  trampolineAddress :: addr
  installed :: bool

datatype hook_error = HookInstallFailure | HookDecodeError

text \<open>
  Modelled from the spec: the transfer of control written over the target's entry,
  an unconditional near jump with a 32-bit displacement (opcode \<open>E9\<close>, five bytes),
  relative to the end of the jump.
\<close>

definition jmp_rel32 :: "addr \<Rightarrow> addr \<Rightarrow> byte list" where
  "jmp_rel32 src dest = 0xE9 # le32 (dest - (src + 5))"

text \<open>
  Modelled from the spec: step 1 of install retains whole instructions, sized by the
  walker, until they cover the five bytes of the jump. An instruction the walker
  cannot size (no length of at least one) ends it with no result.
\<close>

function retained_length :: "walker \<Rightarrow> mem \<Rightarrow> addr \<Rightarrow> nat \<Rightarrow> nat option" where
  "retained_length x86_len m target n =
     (if 5 \<le> n then Some n
      else if x86_len m (target + of_nat n) < 1 then None
      else retained_length x86_len m target (n + nat (x86_len m (target + of_nat n))))"
  by pat_completeness auto
termination
  by (relation "measure (\<lambda>(x86_len, m, target, n). 5 - n)") auto

declare retained_length.simps [simp del]

text \<open>
  Modelled from the spec: \<open>install\<close>. The target's memory and the engine's own
  trampoline storage are two memories, since steps 1 and 2 must not mutate target
  memory. \<open>writable\<close> says whether the region at an address can be made writable;
  \<open>tramp\<close> is where the trampoline is allocated. Step 1 retains the original bytes,
  step 2 builds the trampoline (the retained bytes, then a jump back to the target
  past them), step 3 overwrites the target's entry with the jump to the replacement,
  step 4 marks the record installed. When the region cannot be made writable nothing
  is written.
\<close>

definition install ::
  "walker \<Rightarrow> (addr \<Rightarrow> bool) \<Rightarrow> addr \<Rightarrow> mem \<Rightarrow> mem \<Rightarrow> addr \<Rightarrow> addr \<Rightarrow>
   hook_error + (mem \<times> mem \<times> HookRecord)" where
  "install x86_len writable tramp text arena target replacement =
     (if \<not> writable target then Inl HookInstallFailure
      else
        (case retained_length x86_len text target 0 of
           None \<Rightarrow> Inl HookDecodeError
         | Some n \<Rightarrow>
             (let orig = peek text target n;
                  arena' = poke arena tramp
                    (orig @ jmp_rel32 (tramp + of_nat n) (target + of_nat n));
                  text' = poke text target (jmp_rel32 target replacement)
              in Inr (text', arena',
                   \<lparr>targetAddress = target, originalBytes = orig,
                    trampolineAddress = tramp, installed = True\<rparr>))))"

text \<open>
  Modelled from the spec: \<open>uninstall\<close> restores the retained bytes and marks the
  record uninstalled; on a record that is not installed it does nothing.
\<close>

definition uninstall :: "mem \<Rightarrow> HookRecord \<Rightarrow> mem \<times> HookRecord" where
  "uninstall text r =
     (if installed r
      then (poke text (targetAddress r) (originalBytes r), r\<lparr>installed := False\<rparr>)
      else (text, r))"

text \<open>A memory made of byte segments at base addresses, \<open>nop\<close>s elsewhere.\<close>

definition segments :: "(addr \<times> byte list) list \<Rightarrow> mem" where
  "segments segs a =
     (case find (\<lambda>(b, bs). uint (a - b) < int (length bs)) segs of
        Some (b, bs) \<Rightarrow> bs ! unat (a - b)
      | None \<Rightarrow> 0x90)"

text \<open>A function to hook: \<open>push ebp; mov ebp, esp; fld dword ptr [ebp+8]; ret\<close>.\<close>

definition target_fn :: mem where
  "target_fn = segments [(0x1A000, [0x55, 0x8B, 0xEC, 0xD9, 0x45, 0x08, 0xC3])]"

definition hooked_fn :: mem where
  "hooked_fn = poke target_fn 0x1A000 (jmp_rel32 0x1A000 0x30000)"

definition hooked_rec :: HookRecord where
  "hooked_rec = \<lparr>targetAddress = 0x1A000,
                  originalBytes = [0x55, 0x8B, 0xEC, 0xD9, 0x45, 0x08],
                  trampolineAddress = 0x20000, installed = True\<rparr>"

section \<open>The feature's state, the hook callback and the command\<close>

text \<open>
  The file's globals and the part of the process they act on. A C \<open>float\<close> is
  modelled as a real number: rounding is not modelled, and the properties below are
  about which assignments happen. \<open>bytes\<close> is the process memory as bytes (code and
  vtables), \<open>floats\<close> the float objects by address, \<open>out\<close> the console and error
  output in order. The original \<open>Host_AccumulateTime\<close> is engine code outside the
  repository: a call through \<open>orig_Host_AccumulateTime\<close> is recorded in \<open>calls\<close>
  with the pointer called and the argument passed. \<open>arena\<close> and \<open>hooks\<close> are the
  hook engine's own storage: the trampolines, and the hook records by trampoline
  address.
  \<^verbatim>\<open>
  static Host_AccumulateTime_func orig_Host_AccumulateTime;
  float *realtime;
  float *host_frametime;
  static float skiptime = 0.0;
  \<close>
\<close>

record state =
  orig_Host_AccumulateTime :: addr
  realtime :: addr
  host_frametime :: addr
  skiptime :: real
  bytes :: mem
  floats :: "addr \<Rightarrow> real"
  out :: "msg list"
  calls :: "(addr \<times> real) list"
  arena :: mem
  hooks :: "addr \<rightharpoonup> HookRecord"

text \<open>
  How a run ends: it returns a value in a final state, or it dereferences a null
  pointer (the state is the one reached when it does).
\<close>

datatype 'a result = Return (val: 'a) (final: state) | NullDeref (final: state)

text \<open>
  \<^verbatim>\<open>
  void hook_Host_AccumulateTime(float dt) {
      if (skiptime > 0.) {
          *realtime += skiptime;
          *host_frametime += skiptime;
          skiptime = 0.0;
      } else {
          orig_Host_AccumulateTime(dt);
      }
  }
  \<close>
\<close>

definition add_float :: "addr \<Rightarrow> real \<Rightarrow> state \<Rightarrow> state" where
  "add_float p v s = s\<lparr>floats := (floats s)(p := floats s p + v)\<rparr>"

definition hook_Host_AccumulateTime :: "real \<Rightarrow> state \<Rightarrow> unit result" where
  "hook_Host_AccumulateTime dt s =
     (if skiptime s > 0 then
        (if realtime s = NULL then NullDeref s
         else
           (let s1 = add_float (realtime s) (skiptime s) s in
            if host_frametime s1 = NULL then NullDeref s1
            else
              (let s2 = add_float (host_frametime s1) (skiptime s1) s1 in
               Return () (s2\<lparr>skiptime := 0\<rparr>))))
      else Return () (s\<lparr>calls := calls s @ [(orig_Host_AccumulateTime s, dt)]\<rparr>))"

text \<open>
  \<^verbatim>\<open>
  DEF_CCMD_HERE(sst_fastforward, "Fast forward a certain amount of time", CON_DEMO) {
      if (cmd->argc != 2) {
          con_warn("usage: sst_fastforward <time>");
          return;
      }
      skiptime = (float)atof(cmd->argv[1]);
  }
  \<close>
  The command's arguments are the list \<open>argv\<close>, the command's own name first;
  \<open>argc\<close> is its length. \<open>atof\<close> is the C library's, followed here by the conversion
  to \<open>float\<close>: a parameter of the model.
\<close>

type_synonym con_cmdargs = "string list"

definition argc :: "con_cmdargs \<Rightarrow> int" where
  "argc cmd = int (length cmd)"

definition con_warn :: "string \<Rightarrow> state \<Rightarrow> state" where
  "con_warn text s = s\<lparr>out := out s @ [Warn text]\<rparr>"

definition errmsg_errorx :: "string \<Rightarrow> state \<Rightarrow> state" where
  "errmsg_errorx text s = s\<lparr>out := out s @ [Errorx text]\<rparr>"

definition sst_fastforward :: "(string \<Rightarrow> real) \<Rightarrow> con_cmdargs \<Rightarrow> state \<Rightarrow> state" where
  "sst_fastforward atof cmd s =
     (if argc cmd \<noteq> 2 then con_warn ''usage: sst_fastforward <time>'' s
      else s\<lparr>skiptime := atof (cmd ! 1)\<rparr>)"

text \<open>
  A stand-in for \<open>atof\<close> on the arguments the examples use: an optional minus sign
  and decimal digits.
\<close>

fun digits_value :: "nat \<Rightarrow> string \<Rightarrow> nat" where
  "digits_value acc [] = acc"
| "digits_value acc (c # cs) =
     (if (48 :: nat) \<le> of_char c \<and> (of_char c :: nat) \<le> 57
      then digits_value (10 * acc + (of_char c - 48)) cs
      else acc)"

definition atof_int :: "string \<Rightarrow> real" where
  "atof_int s =
     (case s of
        [] \<Rightarrow> 0
      | c # cs \<Rightarrow>
          if c = CHR ''-'' then - real (digits_value 0 cs) else real (digits_value 0 s))"

text \<open>A state for the examples: both scalars located, nothing pending.\<close>

definition st0 :: state where
  "st0 = \<lparr>orig_Host_AccumulateTime = 0x5000, realtime = 0x6000, host_frametime = 0x6004,
          skiptime = 0, bytes = (\<lambda>_. 0x90), floats = (\<lambda>_. 100), out = [], calls = [],
          arena = (\<lambda>_. 0), hooks = Map.empty\<rparr>"

text \<open>The host's frame loop as far as the hook sees it: one invocation per frame,
  each with its own \<open>dt\<close>.\<close>

fun frames :: "real list \<Rightarrow> state \<Rightarrow> unit result" where
  "frames [] s = Return () s"
| "frames (dt # dts) s =
     (case hook_Host_AccumulateTime dt s of
        Return u s' \<Rightarrow> frames dts s'
      | NullDeref s' \<Rightarrow> NullDeref s')"

section \<open>Locating and hooking Host_AccumulateTime\<close>

text \<open>
  Modelled from the spec: \<open>hook_inline\<close> and \<open>unhook_inline\<close> of hook.h as the file
  calls them, on top of \<open>install\<close> and \<open>uninstall\<close>. \<open>hook_inline\<close> returns the
  trampoline through which the original function can still be called, or \<open>NULL\<close>
  with nothing changed when the install fails; \<open>unhook_inline\<close> takes that pointer
  and uninstalls the hook recorded for it. Installing twice on one target is
  forbidden by the spec and not guarded against here.
\<close>

definition hook_inline ::
  "walker \<Rightarrow> (addr \<Rightarrow> bool) \<Rightarrow> addr \<Rightarrow> addr \<Rightarrow> addr \<Rightarrow> state \<Rightarrow> addr \<times> state" where
  "hook_inline x86_len writable tramp func target s =
     (case install x86_len writable tramp (bytes s) (arena s) func target of
        Inl e \<Rightarrow> (NULL, s)
      | Inr (text', arena', r) \<Rightarrow>
          (trampolineAddress r,
           s\<lparr>bytes := text', arena := arena', hooks := (hooks s)(tramp \<mapsto> r)\<rparr>))"

definition unhook_inline :: "addr \<Rightarrow> state \<Rightarrow> state" where
  "unhook_inline orig s =
     (case hooks s orig of
        None \<Rightarrow> s
      | Some r \<Rightarrow>
          s\<lparr>bytes := fst (uninstall (bytes s) r),
            hooks := (hooks s)(orig \<mapsto> snd (uninstall (bytes s) r))\<rparr>)"

text \<open>
  The vtable indices are game data (\<open>REQUIRE_GAMEDATA\<close>), and \<open>factory_engine\<close> is
  the engine's interface lookup by version string, \<open>NULL\<close> when it has none: both are
  parameters.
\<close>

record gamedata =
  vtidx_RunFrame :: int
  vtidx_Frame :: int
  vtidx_GetRealTime :: int
  vtidx_HostFrameTime :: int

text \<open>
  A load through a data pointer: \<open>None\<close> when the pointer is null. \<open>(*obj)[idx]\<close>
  loads the vtable pointer from the object and the slot from the vtable; a pointer is
  four bytes wide. Reads of code bytes through the scan pointers are plain memory
  reads.
\<close>

definition load_ptr :: "mem \<Rightarrow> addr \<Rightarrow> addr option" where
  "load_ptr m p = (if p = NULL then None else Some (mem_loadptr m p))"

definition vtable_slot :: "mem \<Rightarrow> addr \<Rightarrow> int \<Rightarrow> addr option" where
  "vtable_slot m obj idx =
     (case load_ptr m obj of
        None \<Rightarrow> None
      | Some vt \<Rightarrow> load_ptr m (vt + 4 * of_int idx))"

text \<open>
  The four scan loops written inline in \<open>find_Host_AccumulateTime\<close>, each with the
  walker step of \<open>NEXT_INSN\<close> as in \<open>floatcall_loop\<close>.
  \<^verbatim>\<open>
  for (const uchar *p = ins; p - ins < 32;) {
      // mov ecx, dword ptr [this]
      if (p[0] == X86_MOVRMW && p[1] == X86_MODRM(0, 1, 5)) {
          void **indirect = mem_loadptr(p + 2);
          eng = *indirect;
          break;
      }
      NEXT_INSN(p, "eng global object");
  }
  \<close>
  The loop hands back \<open>indirect\<close>; the caller loads \<open>eng\<close> through it.
\<close>

partial_function (option) eng_loop :: "walker \<Rightarrow> mem \<Rightarrow> addr \<Rightarrow> int \<Rightarrow> scan option" where
  "eng_loop x86_len m ins off =
     (if off < 32 then
        (let p = ins + of_int off in
         if m p = X86_MOVRMW \<and> m (p + 1) = X86_MODRM 0 1 5 then
           Some (Hit (mem_loadptr m (p + 2)))
         else if x86_len m p = - 1 then Some (Undecodable p)
         else eng_loop x86_len m ins (off + x86_len m p))
      else Some Exhausted)"

text \<open>
  \<^verbatim>\<open>
  for (const uchar *p = ins; p - ins < 384;) {
      if (p[0] == X86_ALUMI8S && (p[1] & 0x38) == X86_MODRM(0, 7, 0) && p[2] == 2) {
          nextcall = true;
      } else if (nextcall && p[0] == X86_CALL) {
          int offset = (int)mem_load32(p + 1);
          hoststate_frame = (void *)(p + x86_len(p) + offset);
          break;
      }
      NEXT_INSN(p, "HostState_Frame");
  }
  \<close>
\<close>

partial_function (option) hoststate_loop ::
  "walker \<Rightarrow> mem \<Rightarrow> addr \<Rightarrow> int \<Rightarrow> bool \<Rightarrow> scan option" where
  "hoststate_loop x86_len m ins off nextcall =
     (if off < 384 then
        (let p = ins + of_int off in
         if m p = X86_ALUMI8S \<and> (m (p + 1) AND 0x38) = X86_MODRM 0 7 0 \<and> m (p + 2) = 2 then
           (if x86_len m p = - 1 then Some (Undecodable p)
            else hoststate_loop x86_len m ins (off + x86_len m p) True)
         else if nextcall \<and> m p = X86_CALL then
           Some (Hit (p + of_int (x86_len m p) + mem_load32 m (p + 1)))
         else
           (if x86_len m p = - 1 then Some (Undecodable p)
            else hoststate_loop x86_len m ins (off + x86_len m p) nextcall))
      else Some Exhausted)"

text \<open>
  \<^verbatim>\<open>
  for (const uchar *p = ins; p - ins < 384;) {
      if (p[0] == X86_CALL) {
          int offset = (int)mem_load32(p + 1);
          frameupdate = (void*)(p + x86_len(p) + offset);
          break;
      }
      NEXT_INSN(p, "CHostState::FrameUpdate");
  }
  \<close>
\<close>

partial_function (option) frameupdate_loop ::
  "walker \<Rightarrow> mem \<Rightarrow> addr \<Rightarrow> int \<Rightarrow> scan option" where
  "frameupdate_loop x86_len m ins off =
     (if off < 384 then
        (let p = ins + of_int off in
         if m p = X86_CALL then
           Some (Hit (p + of_int (x86_len m p) + mem_load32 m (p + 1)))
         else if x86_len m p = - 1 then Some (Undecodable p)
         else frameupdate_loop x86_len m ins (off + x86_len m p))
      else Some Exhausted)"

text \<open>
  \<^verbatim>\<open>
  for (const uchar *p = ins; p - ins < 384;) {
      if (p[0] == X86_FLTBLK2 && p[1] == X86_MODRM(1, 0, 5) && p[2] == 8) {
          nextcall = true;
      } else if (nextcall && p[0] == X86_CALL) {
          int offset = (int)mem_load32(p + 1);
          orig_Host_AccumulateTime =
              (Host_AccumulateTime_func)(p + x86_len(p) + offset);
          break;
      }
      NEXT_INSN(p, "Host_AccumulateTime");
  }
  \<close>
\<close>

partial_function (option) accumulate_loop ::
  "walker \<Rightarrow> mem \<Rightarrow> addr \<Rightarrow> int \<Rightarrow> bool \<Rightarrow> scan option" where
  "accumulate_loop x86_len m ins off nextcall =
     (if off < 384 then
        (let p = ins + of_int off in
         if m p = X86_FLTBLK2 \<and> m (p + 1) = X86_MODRM 1 0 5 \<and> m (p + 2) = 8 then
           (if x86_len m p = - 1 then Some (Undecodable p)
            else accumulate_loop x86_len m ins (off + x86_len m p) True)
         else if nextcall \<and> m p = X86_CALL then
           Some (Hit (p + of_int (x86_len m p) + mem_load32 m (p + 1)))
         else
           (if x86_len m p = - 1 then Some (Undecodable p)
            else accumulate_loop x86_len m ins (off + x86_len m p) nextcall))
      else Some Exhausted)"

text \<open>
  The ways \<open>find_Host_AccumulateTime\<close> leaves early: \<open>NEXT_INSN\<close> on an instruction
  the walker cannot size (a decode error with the label, then \<open>return false\<close>), and
  an error message followed by \<open>return false\<close>.
\<close>

definition undecodable :: "addr \<Rightarrow> string \<Rightarrow> state \<Rightarrow> bool result option" where
  "undecodable p label s = Some (Return False (s\<lparr>out := out s @ [DecodeError p label]\<rparr>))"

definition give_up :: "string \<Rightarrow> state \<Rightarrow> bool result option" where
  "give_up text s = Some (Return False (errmsg_errorx text s))"

text \<open>
  \<open>find_Host_AccumulateTime\<close>, in the order of the source and cut at its stages; the
  tail of the function comes first. The last stage: the scan of \<open>_Host_RunFrame\<close>
  for the call that passes the time argument, and the test of the global.
\<close>

definition find_in_host_runframe :: "walker \<Rightarrow> addr \<Rightarrow> state \<Rightarrow> bool result option" where
  "find_in_host_runframe x86_len host_runframe' s =
     (case accumulate_loop x86_len (bytes s) host_runframe' 0 False of
        None \<Rightarrow> None
      | Some (Undecodable p) \<Rightarrow> undecodable p ''Host_AccumulateTime'' s
      | Some r \<Rightarrow>
          (let s' = (case r of Hit a \<Rightarrow> s\<lparr>orig_Host_AccumulateTime := a\<rparr> | _ \<Rightarrow> s) in
           if orig_Host_AccumulateTime s' = NULL
           then give_up ''couldn't find Host_AccumulateTime'' s'
           else Some (Return True s')))"

text \<open>The three rounds of \<open>find_floatcall\<close>, from \<open>CHostState::FrameUpdate\<close> down.\<close>

definition find_from_frameupdate :: "walker \<Rightarrow> addr \<Rightarrow> state \<Rightarrow> bool result option" where
  "find_from_frameupdate x86_len frameupdate s =
     (case find_floatcall x86_len (bytes s) frameupdate ''CHostState::State_Run'' of
        None \<Rightarrow> None
      | Some (state_run, msgs1) \<Rightarrow>
          (let s1 = s\<lparr>out := out s @ msgs1\<rparr> in
           if state_run = NULL then give_up ''couldn't find State_Run'' s1
           else
             (case find_floatcall x86_len (bytes s1) state_run ''Host_RunFrame'' of
                None \<Rightarrow> None
              | Some (host_runframe, msgs2) \<Rightarrow>
                  (let s2 = s1\<lparr>out := out s1 @ msgs2\<rparr> in
                   if host_runframe = NULL then give_up ''couldn't find Host_RunFrame'' s2
                   else
                     (case find_floatcall x86_len (bytes s2) host_runframe ''_Host_RunFrame'' of
                        None \<Rightarrow> None
                      | Some (host_runframe', msgs3) \<Rightarrow>
                          (let s3 = s2\<lparr>out := out s2 @ msgs3\<rparr> in
                           if host_runframe' = NULL
                           then give_up ''couldn't find _Host_RunFrame'' s3
                           else find_in_host_runframe x86_len host_runframe' s3))))))"

text \<open>From \<open>CEngine::Frame\<close>: the compare against 2 and the call after it
  (\<open>HostState_Frame\<close>), then the first call in that function.\<close>

definition find_from_frame :: "walker \<Rightarrow> addr \<Rightarrow> state \<Rightarrow> bool result option" where
  "find_from_frame x86_len frame s =
     (case hoststate_loop x86_len (bytes s) frame 0 False of
        None \<Rightarrow> None
      | Some (Undecodable p) \<Rightarrow> undecodable p ''HostState_Frame'' s
      | Some Exhausted \<Rightarrow> give_up ''couldn't find HostState_Frame'' s
      | Some (Hit hoststate_frame) \<Rightarrow>
          if hoststate_frame = NULL then give_up ''couldn't find HostState_Frame'' s
          else
            (case frameupdate_loop x86_len (bytes s) hoststate_frame 0 of
               None \<Rightarrow> None
             | Some (Undecodable p) \<Rightarrow> undecodable p ''CHostState::FrameUpdate'' s
             | Some Exhausted \<Rightarrow> give_up ''couldn't find frameupdate'' s
             | Some (Hit frameupdate) \<Rightarrow>
                 if frameupdate = NULL then give_up ''couldn't find frameupdate'' s
                 else find_from_frameupdate x86_len frameupdate s))"

text \<open>
  \<^verbatim>\<open>
  bool find_Host_AccumulateTime(void) {
      // start with CDedicatedServerAPI::RunFrame
      void *runframe = NULL;
      {
          void ***hldsapi = factory_engine("VENGINE_HLDS_API_VERSION002", NULL);
          if (!hldsapi) {
              errmsg_errorx("missing hlds api interface");
          }
          runframe = (*hldsapi)[vtidx_RunFrame];
      }
      void *frame = NULL;
      {
          void ***eng = NULL;
          ... (the scan for the load of the eng global)
          if (!eng) {
              errmsg_errorx("couldn't find eng global object");
              return false;
          }
          frame = (*eng)[vtidx_Frame];
      }
      ...
  \<close>
\<close>

definition find_Host_AccumulateTime ::
  "walker \<Rightarrow> (string \<Rightarrow> addr) \<Rightarrow> gamedata \<Rightarrow> state \<Rightarrow> bool result option" where
  "find_Host_AccumulateTime x86_len factory_engine gd s =
     (let hldsapi = factory_engine ''VENGINE_HLDS_API_VERSION002'';
          s1 = (if hldsapi = NULL then errmsg_errorx ''missing hlds api interface'' s else s)
      in
        (case vtable_slot (bytes s1) hldsapi (vtidx_RunFrame gd) of
           None \<Rightarrow> Some (NullDeref s1)
         | Some runframe \<Rightarrow>
             (case eng_loop x86_len (bytes s1) runframe 0 of
                None \<Rightarrow> None
              | Some (Undecodable p) \<Rightarrow> undecodable p ''eng global object'' s1
              | Some Exhausted \<Rightarrow> give_up ''couldn't find eng global object'' s1
              | Some (Hit indirect) \<Rightarrow>
                  (case load_ptr (bytes s1) indirect of
                     None \<Rightarrow> Some (NullDeref s1)
                   | Some eng \<Rightarrow>
                       if eng = NULL then give_up ''couldn't find eng global object'' s1
                       else
                         (case vtable_slot (bytes s1) eng (vtidx_Frame gd) of
                            None \<Rightarrow> Some (NullDeref s1)
                          | Some frame \<Rightarrow> find_from_frame x86_len frame s1)))))"

text \<open>
  \<^verbatim>\<open>
  INIT {
      // use this interface to get the float globals
      void ***enginetool = factory_engine("VENGINETOOL003", NULL);
      if (!enginetool) {
          errmsg_errorx("missing engine tool interface");
          return false;
      }
      realtime = floatgetter((*enginetool)[vtidx_GetRealTime]);
      host_frametime = floatgetter((*enginetool)[vtidx_HostFrameTime]);
      if (!find_Host_AccumulateTime()) {
          errmsg_errorx("couldn't find Host_Accumulate");
          return false;
      }
      orig_Host_AccumulateTime = (Host_AccumulateTime_func)hook_inline(
              (void*)orig_Host_AccumulateTime, (void*)hook_Host_AccumulateTime);
      return true;
  }

  END {
      unhook_inline((void*)orig_Host_AccumulateTime);
  }
  \<close>
  \<open>hook_addr\<close> is the address of \<open>hook_Host_AccumulateTime\<close> in the plugin.
\<close>

definition INIT ::
  "walker \<Rightarrow> (addr \<Rightarrow> bool) \<Rightarrow> addr \<Rightarrow> addr \<Rightarrow> (string \<Rightarrow> addr) \<Rightarrow> gamedata \<Rightarrow> state \<Rightarrow>
   bool result option" where
  "INIT x86_len writable tramp hook_addr factory_engine gd s =
     (let enginetool = factory_engine ''VENGINETOOL003'' in
      if enginetool = NULL
      then Some (Return False (errmsg_errorx ''missing engine tool interface'' s))
      else
        (case vtable_slot (bytes s) enginetool (vtidx_GetRealTime gd) of
           None \<Rightarrow> Some (NullDeref s)
         | Some getrealtime \<Rightarrow>
             (let s1 = s\<lparr>realtime := floatgetter (bytes s) getrealtime\<rparr> in
              case vtable_slot (bytes s1) enginetool (vtidx_HostFrameTime gd) of
                None \<Rightarrow> Some (NullDeref s1)
              | Some hostframetime \<Rightarrow>
                  (let s2 = s1\<lparr>host_frametime := floatgetter (bytes s1) hostframetime\<rparr> in
                   case find_Host_AccumulateTime x86_len factory_engine gd s2 of
                     None \<Rightarrow> None
                   | Some (NullDeref s3) \<Rightarrow> Some (NullDeref s3)
                   | Some (Return found s3) \<Rightarrow>
                       if \<not> found
                       then Some (Return False
                              (errmsg_errorx ''couldn't find Host_Accumulate'' s3))
                       else
                         (let (orig, s4) = hook_inline x86_len writable tramp
                                (orig_Host_AccumulateTime s3) hook_addr s3
                          in Some (Return True (s4\<lparr>orig_Host_AccumulateTime := orig\<rparr>)))))))"

definition END :: "state \<Rightarrow> state" where
  "END s = unhook_inline (orig_Host_AccumulateTime s) s"

section \<open>A synthetic engine image\<close>

text \<open>
  A process image on which the whole chain can be run: the two interface objects with
  their vtables, the two accessors, and the functions from
  \<open>CDedicatedServerAPI::RunFrame\<close> down to \<open>Host_AccumulateTime\<close>, each holding just
  the idiom the locator looks for. The \<open>GetRealTime\<close> accessor is a parameter.
  \<^item> \<open>0x10000\<close>: the engine tool object; its vtable at \<open>0x10100\<close> has \<open>GetRealTime\<close>
    (\<open>0x10200\<close>) in slot 0 and \<open>HostFrameTime\<close> (\<open>0x10210\<close>) in slot 1.
  \<^item> \<open>0x11000\<close>: the dedicated server API object; its vtable at \<open>0x11100\<close> has
    \<open>RunFrame\<close> (\<open>0x12000\<close>) in slot 0.
  \<^item> \<open>0x12000\<close>: \<open>mov ecx, [0x13000]; ret\<close>; \<open>0x13000\<close> holds \<open>eng\<close>, the object at
    \<open>0x13100\<close>, whose vtable at \<open>0x13200\<close> has \<open>Frame\<close> (\<open>0x14000\<close>) in slot 0.
  \<^item> \<open>0x14000\<close>: \<open>cmp eax, 2; call 0x15000; ret\<close>.
  \<^item> \<open>0x15000\<close>: \<open>call 0x16000; ret\<close>.
  \<^item> \<open>0x16000\<close>, \<open>0x17000\<close>, \<open>0x18000\<close>: \<open>fld st(0); call\<close> to the next one\<open>; ret\<close>.
  \<^item> \<open>0x19000\<close>: \<open>fld dword ptr [ebp+8]; call 0x1A000; ret\<close>.
  \<^item> \<open>0x1A000\<close>: \<open>Host_AccumulateTime\<close>, the function of \<open>target_fn\<close>.
\<close>

definition engine_image :: "byte list \<Rightarrow> mem" where
  "engine_image getrealtime = segments
     [(0x10000, [0x00, 0x01, 0x01, 0x00]),
      (0x10100, [0x00, 0x02, 0x01, 0x00, 0x10, 0x02, 0x01, 0x00]),
      (0x10210, [0xD9, 0x05, 0x04, 0x60, 0x00, 0x00, 0xC3]),
      (0x11000, [0x00, 0x11, 0x01, 0x00]),
      (0x11100, [0x00, 0x20, 0x01, 0x00]),
      (0x12000, [0x8B, 0x0D, 0x00, 0x30, 0x01, 0x00, 0xC3]),
      (0x13000, [0x00, 0x31, 0x01, 0x00]),
      (0x13100, [0x00, 0x32, 0x01, 0x00]),
      (0x13200, [0x00, 0x40, 0x01, 0x00]),
      (0x14000, [0x83, 0xF8, 0x02, 0xE8, 0xF8, 0x0F, 0x00, 0x00, 0xC3]),
      (0x15000, [0xE8, 0xFB, 0x0F, 0x00, 0x00, 0xC3]),
      (0x16000, [0xD9, 0xC0, 0xE8, 0xF9, 0x0F, 0x00, 0x00, 0xC3]),
      (0x17000, [0xD9, 0xC0, 0xE8, 0xF9, 0x0F, 0x00, 0x00, 0xC3]),
      (0x18000, [0xD9, 0xC0, 0xE8, 0xF9, 0x0F, 0x00, 0x00, 0xC3]),
      (0x19000, [0xD9, 0x45, 0x08, 0xE8, 0xF8, 0x0F, 0x00, 0x00, 0xC3]),
      (0x1A000, [0x55, 0x8B, 0xEC, 0xD9, 0x45, 0x08, 0xC3]),
      (0x10200, getrealtime)]"

text \<open>
  Two shapes of the \<open>GetRealTime\<close> accessor: \<open>fld dword ptr [0x6000]; ret\<close>, and the
  same load behind a frame prologue (\<open>push ebp; mov ebp, esp; ...\<close>), which the
  extractor does not recognise.
\<close>

definition plain_accessor :: "byte list" where
  "plain_accessor = [0xD9, 0x05, 0x00, 0x60, 0x00, 0x00, 0xC3]"

definition framed_accessor :: "byte list" where
  "framed_accessor = [0x55, 0x8B, 0xEC, 0xD9, 0x05, 0x00, 0x60, 0x00, 0x00, 0x5D, 0xC3]"

definition gd0 :: gamedata where
  "gd0 = \<lparr>vtidx_RunFrame = 0, vtidx_Frame = 0, vtidx_GetRealTime = 0, vtidx_HostFrameTime = 1\<rparr>"

text \<open>The engine's factory with both interfaces, and one without the dedicated
  server API.\<close>

definition factory_both :: "string \<Rightarrow> addr" where
  "factory_both name =
     (if name = ''VENGINETOOL003'' then 0x10000
      else if name = ''VENGINE_HLDS_API_VERSION002'' then 0x11000
      else NULL)"

definition factory_no_hlds :: "string \<Rightarrow> addr" where
  "factory_no_hlds name = (if name = ''VENGINETOOL003'' then 0x10000 else NULL)"

definition factory_no_tool :: "string \<Rightarrow> addr" where
  "factory_no_tool name = (if name = ''VENGINE_HLDS_API_VERSION002'' then 0x11000 else NULL)"

text \<open>The state in which the plugin is loaded into the image: nothing located yet.\<close>

definition loaded :: "byte list \<Rightarrow> state" where
  "loaded getrealtime =
     \<lparr>orig_Host_AccumulateTime = NULL, realtime = NULL, host_frametime = NULL,
      skiptime = 0, bytes = engine_image getrealtime, floats = (\<lambda>_. 100), out = [],
      calls = [], arena = (\<lambda>_. 0), hooks = Map.empty\<rparr>"

text \<open>
  The state after a successful \<open>INIT\<close> on the image, with the hook's address
  \<open>0x30000\<close> and the trampoline allocated at \<open>0x20000\<close>, for a given accessor and the
  \<open>realtime\<close> pointer extracted from it.
\<close>

definition hooked_state :: "byte list \<Rightarrow> addr \<Rightarrow> state" where
  "hooked_state getrealtime rt =
     (loaded getrealtime)
       \<lparr>realtime := rt, host_frametime := 0x6004, orig_Host_AccumulateTime := 0x20000,
        bytes := poke (engine_image getrealtime) 0x1A000 (jmp_rel32 0x1A000 0x30000),
        arena := poke (\<lambda>_. 0) 0x20000
          ([0x55, 0x8B, 0xEC, 0xD9, 0x45, 0x08] @ jmp_rel32 0x20006 0x1A006),
        hooks := [0x20000 \<mapsto> hooked_rec]\<rparr>"

section \<open>Properties of the memory primitives\<close>

lemma le32_recompose:
  "ucast (ucast d :: byte) OR push_bit 8 (ucast (ucast (drop_bit 8 d) :: byte)) OR
   push_bit 16 (ucast (ucast (drop_bit 16 d) :: byte)) OR
   push_bit 24 (ucast (ucast (drop_bit 24 d) :: byte)) = (d :: 32 word)"
proof (rule bit_word_eqI)
  fix n :: nat
  assume n: "n < LENGTH(32)"
  consider "n < 8" | "8 \<le> n" "n < 16" | "16 \<le> n" "n < 24" | "24 \<le> n" "n < 32"
    using n by fastforce
  then show "bit (ucast (ucast d :: byte) OR push_bit 8 (ucast (ucast (drop_bit 8 d) :: byte)) OR
   push_bit 16 (ucast (ucast (drop_bit 16 d) :: byte)) OR
   push_bit 24 (ucast (ucast (drop_bit 24 d) :: byte)) :: 32 word) n = bit d n"
    by cases (auto simp: bit_simps)
qed

lemma holds_bytes_Nil: "holds_bytes m a []"
  by (simp add: holds_bytes_def)

lemma holds_bytes_Cons:
  "holds_bytes m a (b # bs) \<longleftrightarrow> m a = b \<and> holds_bytes m (a + 1) bs"
proof -
  have "map (\<lambda>k. m (a + of_nat k)) [0..<Suc (length bs)] =
        m a # map (\<lambda>k. m (a + 1 + of_nat k)) [0..<length bs]"
    by (simp add: upt_rec [of 0] map_Suc_upt [symmetric] add.assoc del: upt_Suc)
  then show ?thesis
    by (simp add: holds_bytes_def)
qed

lemma mem_load32_le32: "holds_bytes m a (le32 d) \<Longrightarrow> mem_load32 m a = d"
proof -
  assume "holds_bytes m a (le32 d)"
  then have "m a = ucast d" "m (a + 1) = ucast (drop_bit 8 d)"
    "m (a + 2) = ucast (drop_bit 16 d)" "m (a + 3) = ucast (drop_bit 24 d)"
    by (simp_all add: le32_def holds_bytes_Cons add.assoc)
  then show ?thesis
    unfolding mem_load32_def using le32_recompose [of d] by simp
qed

section \<open>The float-call locator\<close>

lemma opcodes_distinct: "X86_FLTBLK2 \<noteq> X86_CALL"
  by (simp add: X86_FLTBLK2_def X86_CALL_def)

lemma floatcall_loop_exhausted:
  "\<not> off < 384 \<Longrightarrow> floatcall_loop x86_len m ins off nc = Some Exhausted"
  by (subst floatcall_loop.simps) simp

lemma floatcall_loop_hit:
  "off < 384 \<Longrightarrow> nc \<Longrightarrow> is_call m (ins + of_int off) \<Longrightarrow>
   floatcall_loop x86_len m ins off nc =
     Some (Hit (ins + of_int off + of_int (x86_len m (ins + of_int off)) +
                mem_load32 m (ins + of_int off + 1)))"
  by (subst floatcall_loop.simps) (simp add: is_call_def opcodes_distinct [symmetric] Let_def)

lemma floatcall_loop_undecodable:
  "off < 384 \<Longrightarrow> \<not> (nc \<and> is_call m (ins + of_int off)) \<Longrightarrow>
   x86_len m (ins + of_int off) = - 1 \<Longrightarrow>
   floatcall_loop x86_len m ins off nc = Some (Undecodable (ins + of_int off))"
  by (subst floatcall_loop.simps) (auto simp: is_call_def Let_def)

lemma floatcall_loop_step:
  "off < 384 \<Longrightarrow> \<not> (nc \<and> is_call m (ins + of_int off)) \<Longrightarrow>
   x86_len m (ins + of_int off) \<noteq> - 1 \<Longrightarrow>
   floatcall_loop x86_len m ins off nc =
     floatcall_loop x86_len m ins (off + x86_len m (ins + of_int off))
       (nc \<or> is_fld m (ins + of_int off))"
  by (subst floatcall_loop.simps) (auto simp: is_call_def is_fld_def Let_def)

lemma armed_before_0: "\<not> armed_before x86_len m ins 0"
  by (simp add: armed_before_def)

lemma armed_before_Suc:
  "armed_before x86_len m ins (Suc k) \<longleftrightarrow>
     armed_before x86_len m ins k \<or> is_fld m (insn_at x86_len m ins k)"
  by (auto simp: armed_before_def less_Suc_eq)

lemma insn_off_mono:
  "(\<forall>i<j. 1 \<le> x86_len m (insn_at x86_len m ins i)) \<Longrightarrow> i \<le> j \<Longrightarrow>
   insn_off x86_len m ins i \<le> insn_off x86_len m ins j"
proof (induction j)
  case 0
  then show ?case by simp
next
  case (Suc j)
  show ?case
  proof (cases "i = Suc j")
    case True
    then show ?thesis by simp
  next
    case False
    with Suc.prems have "i \<le> j" by simp
    moreover have "\<forall>i<j. 1 \<le> x86_len m (insn_at x86_len m ins i)"
      using Suc.prems by simp
    ultimately have "insn_off x86_len m ins i \<le> insn_off x86_len m ins j"
      using Suc.IH by blast
    moreover have "1 \<le> x86_len m (insn_at x86_len m ins j)"
      using Suc.prems by simp
    ultimately show ?thesis
      by (simp add: insn_at_def)
  qed
qed

lemma floatcall_loop_walk:
  "(\<forall>i<k. insn_off x86_len m ins i < 384 \<and> x86_len m (insn_at x86_len m ins i) \<noteq> - 1 \<and>
      \<not> (armed_before x86_len m ins i \<and> is_call m (insn_at x86_len m ins i))) \<Longrightarrow>
   floatcall_loop x86_len m ins 0 False =
     floatcall_loop x86_len m ins (insn_off x86_len m ins k) (armed_before x86_len m ins k)"
proof (induction k)
  case 0
  then show ?case by (simp add: armed_before_0)
next
  case (Suc k)
  have "floatcall_loop x86_len m ins 0 False =
     floatcall_loop x86_len m ins (insn_off x86_len m ins k) (armed_before x86_len m ins k)"
    using Suc by simp
  also have "\<dots> = floatcall_loop x86_len m ins (insn_off x86_len m ins (Suc k))
       (armed_before x86_len m ins (Suc k))"
    using Suc.prems floatcall_loop_step [of "insn_off x86_len m ins k" "armed_before x86_len m ins k" m ins x86_len]
    by (simp add: armed_before_Suc insn_at_def)
  finally show ?case .
qed

lemma find_floatcall_confirmed:
  assumes "confirming_call x86_len m ins j"
  shows "find_floatcall x86_len m ins name =
     Some (insn_at x86_len m ins j + of_int (x86_len m (insn_at x86_len m ins j)) +
           mem_load32 m (insn_at x86_len m ins j + 1), [])"
proof -
  from assms have armed: "armed_before x86_len m ins j"
    and call: "is_call m (insn_at x86_len m ins j)"
    and win: "insn_off x86_len m ins j < 384"
    and pre: "\<forall>i<j. 1 \<le> x86_len m (insn_at x86_len m ins i) \<and>
         \<not> (armed_before x86_len m ins i \<and> is_call m (insn_at x86_len m ins i))"
    by (simp_all add: confirming_call_def)
  have sized: "\<forall>i<j. 1 \<le> x86_len m (insn_at x86_len m ins i)"
    using pre by simp
  have "\<forall>i<j. insn_off x86_len m ins i < 384"
  proof (intro allI impI)
    fix i assume "i < j"
    then have "insn_off x86_len m ins i \<le> insn_off x86_len m ins j"
      using insn_off_mono [OF sized, of i] by simp
    with win show "insn_off x86_len m ins i < 384" by simp
  qed
  with pre have "\<forall>i<j. insn_off x86_len m ins i < 384 \<and>
      x86_len m (insn_at x86_len m ins i) \<noteq> - 1 \<and>
      \<not> (armed_before x86_len m ins i \<and> is_call m (insn_at x86_len m ins i))"
    by fastforce
  then have "floatcall_loop x86_len m ins 0 False =
     floatcall_loop x86_len m ins (insn_off x86_len m ins j) (armed_before x86_len m ins j)"
    by (rule floatcall_loop_walk)
  also have "\<dots> = Some (Hit (insn_at x86_len m ins j +
           of_int (x86_len m (insn_at x86_len m ins j)) +
           mem_load32 m (insn_at x86_len m ins j + 1)))"
    using floatcall_loop_hit [OF win, of "armed_before x86_len m ins j" m ins x86_len] armed call
    by (simp add: insn_at_def)
  finally show ?thesis
    by (simp add: find_floatcall_def)
qed


lemma floatcall_loop_no_hit:
  assumes ok: "walker_ok x86_len m"
    and nc: "never_confirmed x86_len m ins"
  shows "(\<forall>i<k. 1 \<le> x86_len m (insn_at x86_len m ins i)) \<Longrightarrow>
     \<exists>r. floatcall_loop x86_len m ins (insn_off x86_len m ins k)
            (armed_before x86_len m ins k) = Some r \<and> scan_ptr r = NULL"
proof (induction "nat (384 - insn_off x86_len m ins k)" arbitrary: k rule: less_induct)
  case less
  define off where "off = insn_off x86_len m ins k"
  define p where "p = insn_at x86_len m ins k"
  have p: "p = ins + of_int off"
    by (simp add: p_def off_def insn_at_def)
  show ?case
  proof (cases "off < 384")
    case False
    then show ?thesis
      using floatcall_loop_exhausted [of off x86_len m ins] by (simp add: off_def)
  next
    case win: True
    have nocall: "\<not> (armed_before x86_len m ins k \<and> is_call m p)"
      using nc less.prems win unfolding never_confirmed_def off_def p_def by blast
    show ?thesis
    proof (cases "x86_len m p = - 1")
      case True
      then show ?thesis
        using floatcall_loop_undecodable [of off "armed_before x86_len m ins k" m ins x86_len]
          win nocall p by (simp add: off_def)
    next
      case False
      with ok have len: "1 \<le> x86_len m p"
        unfolding walker_ok_def by (metis)
      have sized: "\<forall>i<Suc k. 1 \<le> x86_len m (insn_at x86_len m ins i)"
        using less.prems len by (simp add: less_Suc_eq p_def)
      have "nat (384 - insn_off x86_len m ins (Suc k)) < nat (384 - insn_off x86_len m ins k)"
        using len win by (simp add: off_def p_def insn_at_def)
      from less.hyps [OF this sized]
      obtain r where r: "floatcall_loop x86_len m ins (insn_off x86_len m ins (Suc k))
            (armed_before x86_len m ins (Suc k)) = Some r" "scan_ptr r = NULL"
        by blast
      have "floatcall_loop x86_len m ins off (armed_before x86_len m ins k) =
         floatcall_loop x86_len m ins (insn_off x86_len m ins (Suc k))
           (armed_before x86_len m ins (Suc k))"
        using floatcall_loop_step [of off "armed_before x86_len m ins k" m ins x86_len]
          win nocall False p
        by (simp add: armed_before_Suc off_def p_def insn_at_def)
      with r show ?thesis
        by (simp add: off_def)
    qed
  qed
qed

lemma find_floatcall_fails:
  assumes "walker_ok x86_len m" and "never_confirmed x86_len m ins"
  shows "\<exists>msgs. find_floatcall x86_len m ins name = Some (NULL, msgs)"
proof -
  have "\<exists>r. floatcall_loop x86_len m ins (insn_off x86_len m ins 0)
            (armed_before x86_len m ins 0) = Some r \<and> scan_ptr r = NULL"
    by (rule floatcall_loop_no_hit [OF assms]) simp
  then show ?thesis
    by (auto simp: find_floatcall_def armed_before_0)
qed

lemma floatcall_loop_local:
  assumes ok: "walker_ok x86_len m"
    and bytes: "same_bytes m m' ins 388"
    and lens: "same_lengths x86_len m m' ins 384"
  shows "0 \<le> off \<Longrightarrow>
     floatcall_loop x86_len m' ins off nc = floatcall_loop x86_len m ins off nc"
proof (induction "nat (384 - off)" arbitrary: off nc rule: less_induct)
  case less
  show ?case
  proof (cases "off < 384")
    case False
    then show ?thesis
      by (simp add: floatcall_loop_exhausted)
  next
    case win: True
    define p where "p = ins + of_int off"
    have b: "m' (ins + of_int k) = m (ins + of_int k)" if "0 \<le> k" "k < 388" for k
      using bytes that unfolding same_bytes_def by blast
    have p0: "m' p = m p"
      using b [of off] less.prems win by (simp add: p_def)
    have p1: "m' (p + 1) = m (p + 1)"
      using b [of "off + 1"] less.prems win by (simp add: p_def add.assoc)
    have p2: "m' (p + 2) = m (p + 2)"
      using b [of "off + 2"] less.prems win by (simp add: p_def add.assoc)
    have p3: "m' (p + 3) = m (p + 3)"
      using b [of "off + 3"] less.prems win by (simp add: p_def add.assoc)
    have p4: "m' (p + 4) = m (p + 4)"
      using b [of "off + 4"] less.prems win by (simp add: p_def add.assoc)
    have ld: "mem_load32 m' (p + 1) = mem_load32 m (p + 1)"
      using p1 p2 p3 p4 by (simp add: mem_load32_def add.assoc)
    have len: "x86_len m' p = x86_len m p"
      using lens less.prems win unfolding same_lengths_def p_def by blast
    have rec: "floatcall_loop x86_len m' ins (off + x86_len m p) c =
            floatcall_loop x86_len m ins (off + x86_len m p) c"
      if "x86_len m p \<noteq> - 1" for c
    proof -
      from that ok have "1 \<le> x86_len m p"
        unfolding walker_ok_def by metis
      then show ?thesis
        using less.hyps [of "off + x86_len m p" c] less.prems win by simp
    qed
    have fld: "is_fld m' p = is_fld m p"
      using p0 p1 by (simp add: is_fld_def)
    have call: "is_call m' p = is_call m p"
      using p0 by (simp add: is_call_def)
    consider "nc \<and> is_call m p" | "\<not> (nc \<and> is_call m p)" "x86_len m p = - 1"
      | "\<not> (nc \<and> is_call m p)" "x86_len m p \<noteq> - 1"
      by blast
    then show ?thesis
    proof cases
      case 1
      then show ?thesis
        using floatcall_loop_hit [of off nc m ins x86_len]
          floatcall_loop_hit [of off nc m' ins x86_len] win call len ld
        by (simp add: p_def)
    next
      case 2
      then show ?thesis
        using floatcall_loop_undecodable [of off nc m ins x86_len]
          floatcall_loop_undecodable [of off nc m' ins x86_len] win call len
        by (simp add: p_def)
    next
      case 3
      then show ?thesis
        using floatcall_loop_step [of off nc m ins x86_len]
          floatcall_loop_step [of off nc m' ins x86_len] win call len fld rec
        by (simp add: p_def)
    qed
  qed
qed

lemma find_floatcall_local:
  assumes "walker_ok x86_len m" and "same_bytes m m' ins 388"
    and "same_lengths x86_len m m' ins 384"
  shows "find_floatcall x86_len m' ins name = find_floatcall x86_len m ins name"
  using floatcall_loop_local [OF assms, of 0 False] by (simp add: find_floatcall_def)

lemma stream_at_off:
  "0 \<le> k \<Longrightarrow> k < 2 ^ 32 \<Longrightarrow> stream_at e f (e + of_int k) = f k"
  by (simp add: stream_at_def uint_word_of_int take_bit_int_eq_self)

lemma stream_at_off1:
  "0 \<le> k \<Longrightarrow> k + 1 < 2 ^ 32 \<Longrightarrow> stream_at e f (e + of_int k + 1) = f (k + 1)"
  using stream_at_off [of "k + 1" e f] by (simp add: add.assoc)

lemma toy_len_nop: "m p = 0x90 \<Longrightarrow> toy_len m p = 1"
  by (simp add: toy_len_def Let_def)

lemma walker_ok_toy_len: "walker_ok toy_len m"
  by (simp add: walker_ok_def toy_len_def Let_def)

lemma floatcall_loop_nops:
  "(\<forall>k. off \<le> k \<and> k < off + int n \<longrightarrow> m (ins + of_int k) = 0x90) \<Longrightarrow>
   off + int n \<le> 384 \<Longrightarrow>
   floatcall_loop toy_len m ins off nc = floatcall_loop toy_len m ins (off + int n) nc"
proof (induction n arbitrary: off)
  case 0
  then show ?case by simp
next
  case (Suc n)
  have nop: "m (ins + of_int off) = 0x90"
    using Suc.prems(1) by simp
  then have "\<not> is_fld m (ins + of_int off)" "\<not> is_call m (ins + of_int off)"
    by (simp_all add: is_fld_def is_call_def X86_FLTBLK2_def X86_CALL_def)
  moreover have "off < 384"
    using Suc.prems(2) by simp
  ultimately have "floatcall_loop toy_len m ins off nc =
      floatcall_loop toy_len m ins (off + 1) nc"
    using floatcall_loop_step [of off nc m ins toy_len] toy_len_nop [of m "ins + of_int off"] nop
    by simp
  also have "\<dots> = floatcall_loop toy_len m ins (off + 1 + int n) nc"
    using Suc.prems by (intro Suc.IH) auto
  finally show ?case
    by (simp add: ac_simps)
qed

lemma late_call_scan:
  assumes f: "f 0 = 0xD9" "f 1 = 0xC0" "f 383 = 0xE8"
     "\<forall>k. 2 \<le> k \<and> k < 383 \<longrightarrow> f k = 0x90"
  shows "floatcall_loop toy_len (stream_at 0x1000 f) 0x1000 0 False =
     Some (Hit (0x1184 + mem_load32 (stream_at 0x1000 f) 0x1180))"
proof -
  let ?m = "stream_at 0x1000 f"
  have b0: "?m 0x1000 = 0xD9" and b1: "?m 0x1001 = 0xC0" and b383: "?m 0x117F = 0xE8"
    using f by (simp_all add: stream_at_def)
  have nops: "\<forall>k. 2 \<le> k \<and> k < 2 + int 381 \<longrightarrow> ?m (0x1000 + of_int k) = 0x90"
    using f(4) by (simp add: stream_at_off)
  have "floatcall_loop toy_len ?m 0x1000 0 False = floatcall_loop toy_len ?m 0x1000 2 True"
    using floatcall_loop_step [of 0 False ?m "0x1000" toy_len] b0 b1
    by (simp add: is_fld_def is_call_def toy_len_def X86_FLTBLK2_def)
  also have "\<dots> = floatcall_loop toy_len ?m 0x1000 (2 + int 381) True"
    by (rule floatcall_loop_nops [OF nops]) simp
  also have "\<dots> = Some (Hit (0x1184 + mem_load32 ?m 0x1180))"
    using floatcall_loop_hit [of 383 True ?m "0x1000" toy_len] b383
    by (simp add: is_call_def X86_CALL_def toy_len_def)
  finally show ?thesis .
qed

text \<open>The synthetic streams used to instantiate the properties.\<close>

lemma armed_call_bytes:
  "stream_at 0x1000 armed_call 0x1000 = 0xD9" "stream_at 0x1000 armed_call 0x1001 = 0xC0"
  "stream_at 0x1000 armed_call 0x1002 = 0x90" "stream_at 0x1000 armed_call 0x1003 = 0xE8"
  "stream_at 0x1000 armed_call 0x1004 = 0x10" "stream_at 0x1000 armed_call 0x1005 = 0"
  "stream_at 0x1000 armed_call 0x1006 = 0" "stream_at 0x1000 armed_call 0x1007 = 0"
  by (simp_all add: stream_at_def armed_call_def bytes_then_nops_def)

lemma armed_call_lens:
  "toy_len (stream_at 0x1000 armed_call) 0x1000 = 2"
  "toy_len (stream_at 0x1000 armed_call) 0x1002 = 1"
  "toy_len (stream_at 0x1000 armed_call) 0x1003 = 5"
  by (simp_all add: toy_len_def armed_call_bytes)

lemma armed_call_offs:
  "insn_off toy_len (stream_at 0x1000 armed_call) 0x1000 0 = 0"
  "insn_off toy_len (stream_at 0x1000 armed_call) 0x1000 (Suc 0) = 2"
  "insn_off toy_len (stream_at 0x1000 armed_call) 0x1000 (Suc (Suc 0)) = 3"
  by (simp_all add: armed_call_lens)

lemma armed_call_ats:
  "insn_at toy_len (stream_at 0x1000 armed_call) 0x1000 0 = 0x1000"
  "insn_at toy_len (stream_at 0x1000 armed_call) 0x1000 (Suc 0) = 0x1002"
  "insn_at toy_len (stream_at 0x1000 armed_call) 0x1000 (Suc (Suc 0)) = 0x1003"
  unfolding insn_at_def armed_call_offs by simp_all

lemma armed_call_confirming:
  "confirming_call toy_len (stream_at 0x1000 armed_call) 0x1000 (Suc (Suc 0))"
proof -
  let ?m = "stream_at 0x1000 armed_call"
  have f: "is_fld ?m 0x1000" "\<not> is_call ?m 0x1000" "\<not> is_call ?m 0x1002" "is_call ?m 0x1003"
    by (simp_all add: is_fld_def is_call_def X86_FLTBLK2_def X86_CALL_def armed_call_bytes)
  have a: "armed_before toy_len ?m 0x1000 (Suc (Suc 0))"
    unfolding armed_before_def using f(1) armed_call_ats(1) by (intro exI [of _ 0]) simp
  have pre: "1 \<le> toy_len ?m (insn_at toy_len ?m 0x1000 i) \<and>
         \<not> (armed_before toy_len ?m 0x1000 i \<and> is_call ?m (insn_at toy_len ?m 0x1000 i))"
    if "i < Suc (Suc 0)" for i
  proof -
    from that consider "i = 0" | "i = Suc 0" by fastforce
    then show ?thesis
      by cases (simp_all add: armed_call_ats armed_call_lens f armed_before_def del: insn_off.simps)
  qed
  show ?thesis
    unfolding confirming_call_def
    using a f(4) pre by (simp add: armed_call_ats armed_call_offs del: insn_off.simps)
qed

lemma no_call_byte: "no_call k \<noteq> 0xE8"
proof -
  consider "k = 0" | "k = 1" | "\<not> (0 \<le> k \<and> k < 2)" by fastforce
  then show ?thesis
    by cases (auto simp: no_call_def bytes_then_nops_def)
qed

lemma no_call_never_confirmed: "never_confirmed x86_len (stream_at e no_call) ins"
  by (simp add: never_confirmed_def is_call_def stream_at_def X86_CALL_def no_call_byte)

lemma beyond_same_bytes: "same_bytes (stream_at e f) (stream_at e (f(388 := b))) e 388"
  by (simp add: same_bytes_def stream_at_off)

lemma beyond_same_lengths:
  "same_lengths toy_len (stream_at e f) (stream_at e (f(388 := b))) e 384"
  by (simp add: same_lengths_def toy_len_def stream_at_off stream_at_off1)

text \<open>
  Claim C1, as amended. For a stream in which the walker sizes every instruction up
  to the confirming call (the first call after the first arming \<open>FLD\<close>, starting
  inside the 384-byte window) and whose call carries the displacement \<open>R\<close>,
  \<open>find_floatcall\<close> returns \<open>A + L + R\<close>, with \<open>A\<close> the call's address and \<open>L\<close>
  its length. For a walker that keeps its contract and a stream in which no call
  follows an arming instruction inside the window, it terminates and returns
  \<open>NULL\<close>. It starts no instruction at or past \<open>entry + 384\<close>, but the bytes it
  examines reach up to four bytes further: its result depends only on the bytes at
  the offsets below 388 and on the walker's lengths at the offsets below 384.
\<close>

theorem find_floatcall_locates:
  "(confirming_call x86_len m ins j \<and>
      holds_bytes m (insn_at x86_len m ins j + 1) (le32 R) \<longrightarrow>
      find_floatcall x86_len m ins name =
        Some (insn_at x86_len m ins j + of_int (x86_len m (insn_at x86_len m ins j)) + R, [])) \<and>
   (walker_ok x86_len m \<and> never_confirmed x86_len m ins \<longrightarrow>
      (\<exists>msgs. find_floatcall x86_len m ins name = Some (NULL, msgs))) \<and>
   (walker_ok x86_len m \<and> same_bytes m m' ins 388 \<and> same_lengths x86_len m m' ins 384 \<longrightarrow>
      find_floatcall x86_len m' ins name = find_floatcall x86_len m ins name)"
proof (intro conjI impI)
  assume "confirming_call x86_len m ins j \<and>
      holds_bytes m (insn_at x86_len m ins j + 1) (le32 R)"
  then show "find_floatcall x86_len m ins name =
        Some (insn_at x86_len m ins j + of_int (x86_len m (insn_at x86_len m ins j)) + R, [])"
    using find_floatcall_confirmed [of x86_len m ins j name] mem_load32_le32 [of m _ R]
    by simp
next
  assume "walker_ok x86_len m \<and> never_confirmed x86_len m ins"
  then show "\<exists>msgs. find_floatcall x86_len m ins name = Some (NULL, msgs)"
    using find_floatcall_fails by blast
next
  assume "walker_ok x86_len m \<and> same_bytes m m' ins 388 \<and> same_lengths x86_len m m' ins 384"
  then show "find_floatcall x86_len m' ins name = find_floatcall x86_len m ins name"
    using find_floatcall_local by blast
qed

theorem find_floatcall_locates_witness:
  "find_floatcall toy_len (stream_at 0x1000 armed_call) 0x1000 ''State_Run'' =
     Some (0x1018, []) \<and>
   (\<exists>msgs. find_floatcall toy_len (stream_at 0x1000 no_call) 0x1000 ''State_Run'' =
     Some (NULL, msgs)) \<and>
   find_floatcall toy_len (stream_at 0x1000 (armed_call(388 := 0))) 0x1000 ''State_Run'' =
     find_floatcall toy_len (stream_at 0x1000 armed_call) 0x1000 ''State_Run''"
proof -
  let ?m = "stream_at 0x1000 armed_call"
  have disp: "holds_bytes ?m (insn_at toy_len ?m 0x1000 (Suc (Suc 0)) + 1) (le32 0x10)"
    unfolding armed_call_ats
    by (simp add: holds_bytes_Cons holds_bytes_Nil le32_def armed_call_bytes)
  have "find_floatcall toy_len ?m 0x1000 ''State_Run'' =
     Some (insn_at toy_len ?m 0x1000 (Suc (Suc 0)) +
       of_int (toy_len ?m (insn_at toy_len ?m 0x1000 (Suc (Suc 0)))) + 0x10, [])"
    using find_floatcall_locates [of toy_len ?m "0x1000" "Suc (Suc 0)" "0x10" "''State_Run''"]
      armed_call_confirming disp by blast
  then have 1: "find_floatcall toy_len ?m 0x1000 ''State_Run'' = Some (0x1018, [])"
    unfolding armed_call_ats armed_call_lens by simp
  have 2: "\<exists>msgs. find_floatcall toy_len (stream_at 0x1000 no_call) 0x1000 ''State_Run'' =
     Some (NULL, msgs)"
    using find_floatcall_locates [of toy_len "stream_at 0x1000 no_call" "0x1000" 0 0
        "''State_Run''"]
      walker_ok_toy_len no_call_never_confirmed by blast
  have 3: "find_floatcall toy_len (stream_at 0x1000 (armed_call(388 := 0))) 0x1000
      ''State_Run'' = find_floatcall toy_len ?m 0x1000 ''State_Run''"
    using find_floatcall_locates [of toy_len ?m "0x1000" 0 0 "''State_Run''"
        "stream_at 0x1000 (armed_call(388 := 0))"]
      walker_ok_toy_len beyond_same_bytes beyond_same_lengths by blast
  from 1 2 3 show ?thesis by blast
qed

text \<open>
  The claim as stated says that no byte at or past \<open>entry + 384\<close> is read. In the
  stream \<open>late_call\<close> the call's opcode is the byte at offset 383, so its displacement
  is read from the offsets 384 to 387: changing only the byte at offset 384 changes
  the address returned.
\<close>

theorem find_floatcall_reads_past_window:
  "find_floatcall toy_len (stream_at 0x1000 late_call) 0x1000 ''State_Run'' =
     Some (0x9090A214, []) \<and>
   find_floatcall toy_len (stream_at 0x1000 (late_call(384 := 0))) 0x1000 ''State_Run'' =
     Some (0x9090A184, [])"
proof -
  have "floatcall_loop toy_len (stream_at 0x1000 late_call) 0x1000 0 False =
     Some (Hit (0x1184 + mem_load32 (stream_at 0x1000 late_call) 0x1180))"
    by (rule late_call_scan) (simp_all add: late_call_def bytes_then_nops_def)
  moreover have "floatcall_loop toy_len (stream_at 0x1000 (late_call(384 := 0))) 0x1000 0 False =
     Some (Hit (0x1184 + mem_load32 (stream_at 0x1000 (late_call(384 := 0))) 0x1180))"
    by (rule late_call_scan) (simp_all add: late_call_def bytes_then_nops_def)
  ultimately show ?thesis
    by (simp add: find_floatcall_def mem_load32_def stream_at_def late_call_def
        bytes_then_nops_def)
qed

section \<open>The global scalar extractor\<close>

text \<open>
  Claim C2. When the bytes at \<open>fn\<close> are \<open>D9 05\<close> followed by the little-endian
  encoding of \<open>D\<close>, \<open>floatgetter\<close> returns exactly \<open>D\<close>; when the first byte is
  another opcode or the second another ModRM byte, it returns \<open>NULL\<close>.
\<close>

theorem floatgetter_extracts:
  "(holds_bytes m fn ([0xD9, 0x05] @ le32 D) \<longrightarrow> floatgetter m fn = D) \<and>
   (m fn \<noteq> 0xD9 \<or> m (fn + 1) \<noteq> 0x05 \<longrightarrow> floatgetter m fn = NULL)"
proof (intro conjI impI)
  assume "holds_bytes m fn ([0xD9, 0x05] @ le32 D)"
  then have "m fn = 0xD9" "m (fn + 1) = 0x05" "holds_bytes m (fn + 2) (le32 D)"
    by (simp_all add: holds_bytes_Cons add.assoc)
  then show "floatgetter m fn = D"
    by (simp add: floatgetter_def X86_FLTBLK2_def mem_loadptr_def mem_load32_le32)
next
  assume "m fn \<noteq> 0xD9 \<or> m (fn + 1) \<noteq> 0x05"
  then show "floatgetter m fn = NULL"
    by (auto simp: floatgetter_def X86_FLTBLK2_def)
qed

theorem floatgetter_extracts_witness:
  "floatgetter (stream_at 0x2000 (bytes_then_nops [0xD9, 0x05, 0xEF, 0xCD, 0xAB, 0x00, 0xC3]))
     0x2000 = 0x00ABCDEF \<and>
   floatgetter (stream_at 0x2000 (bytes_then_nops [0x55, 0x8B, 0xEC])) 0x2000 = NULL"
proof -
  let ?m = "stream_at 0x2000 (bytes_then_nops [0xD9, 0x05, 0xEF, 0xCD, 0xAB, 0x00, 0xC3])"
  let ?n = "stream_at 0x2000 (bytes_then_nops [0x55, 0x8B, 0xEC])"
  have "holds_bytes ?m 0x2000 ([0xD9, 0x05] @ le32 0x00ABCDEF)"
    by (simp add: holds_bytes_Cons holds_bytes_Nil le32_def stream_at_def bytes_then_nops_def)
  moreover have "?n 0x2000 \<noteq> 0xD9"
    by (simp add: stream_at_def bytes_then_nops_def)
  ultimately show ?thesis
    using floatgetter_extracts [of ?m "0x2000" "0x00ABCDEF"]
      floatgetter_extracts [of ?n "0x2000" 0]
    by simp
qed

section \<open>The hook callback and the command\<close>


lemma argc_two: "argc [n, a] = 2"
  by (simp add: argc_def)

lemma sst_fastforward_set: "sst_fastforward atof [n, a] s = s\<lparr>skiptime := atof a\<rparr>"
  by (simp add: sst_fastforward_def argc_two)

lemma hook_skip:
  "0 < skiptime s \<Longrightarrow> realtime s \<noteq> NULL \<Longrightarrow> host_frametime s \<noteq> NULL \<Longrightarrow>
   hook_Host_AccumulateTime dt s =
     Return () ((add_float (host_frametime s) (skiptime s)
                  (add_float (realtime s) (skiptime s) s))\<lparr>skiptime := 0\<rparr>)"
  by (simp add: hook_Host_AccumulateTime_def add_float_def Let_def)

lemma hook_pass:
  "\<not> 0 < skiptime s \<Longrightarrow>
   hook_Host_AccumulateTime dt s =
     Return () (s\<lparr>calls := calls s @ [(orig_Host_AccumulateTime s, dt)]\<rparr>)"
  by (simp add: hook_Host_AccumulateTime_def)

text \<open>
  Claim C5, as amended. For every value \<open>V\<close> greater than zero, with both scalars
  located at distinct non-null addresses: after the command sets the pending amount to
  \<open>V\<close>, the next invocation of the hook adds \<open>V\<close> once to each of the two
  scalars, changes no other float, calls nothing and resets the pending amount to
  zero; a second invocation before another set only calls the original function with
  its own \<open>dt\<close>.
\<close>

theorem skip_applied_once:
  "0 < atof a \<and> realtime s \<noteq> NULL \<and> host_frametime s \<noteq> NULL \<and>
   realtime s \<noteq> host_frametime s \<longrightarrow>
   (\<exists>s2. hook_Host_AccumulateTime dt (sst_fastforward atof [n, a] s) = Return () s2 \<and>
      floats s2 = (floats s)
        (realtime s := floats s (realtime s) + atof a,
         host_frametime s := floats s (host_frametime s) + atof a) \<and>
      skiptime s2 = 0 \<and> calls s2 = calls s \<and>
      hook_Host_AccumulateTime dt' s2 =
        Return () (s2\<lparr>calls := calls s @ [(orig_Host_AccumulateTime s, dt')]\<rparr>))"
proof
  assume h: "0 < atof a \<and> realtime s \<noteq> NULL \<and> host_frametime s \<noteq> NULL \<and>
   realtime s \<noteq> host_frametime s"
  define s1 where "s1 = sst_fastforward atof [n, a] s"
  define s2 where "s2 = (add_float (host_frametime s1) (skiptime s1)
                  (add_float (realtime s1) (skiptime s1) s1))\<lparr>skiptime := 0\<rparr>"
  have s1: "s1 = s\<lparr>skiptime := atof a\<rparr>"
    by (simp add: s1_def sst_fastforward_set)
  have "hook_Host_AccumulateTime dt s1 = Return () s2"
    unfolding s2_def using h by (intro hook_skip) (simp_all add: s1)
  moreover have "floats s2 = (floats s)
        (realtime s := floats s (realtime s) + atof a,
         host_frametime s := floats s (host_frametime s) + atof a)"
    using h by (auto simp add: s2_def s1 add_float_def)
  moreover have "skiptime s2 = 0" "calls s2 = calls s"
    and o: "orig_Host_AccumulateTime s2 = orig_Host_AccumulateTime s"
    by (simp_all add: s2_def s1 add_float_def)
  moreover have "hook_Host_AccumulateTime dt' s2 =
        Return () (s2\<lparr>calls := calls s @ [(orig_Host_AccumulateTime s, dt')]\<rparr>)"
    using hook_pass [of s2 dt'] \<open>skiptime s2 = 0\<close> \<open>calls s2 = calls s\<close> o by simp
  ultimately show "\<exists>s2. hook_Host_AccumulateTime dt (sst_fastforward atof [n, a] s) = Return () s2 \<and>
      floats s2 = (floats s)
        (realtime s := floats s (realtime s) + atof a,
         host_frametime s := floats s (host_frametime s) + atof a) \<and>
      skiptime s2 = 0 \<and> calls s2 = calls s \<and>
      hook_Host_AccumulateTime dt' s2 =
        Return () (s2\<lparr>calls := calls s @ [(orig_Host_AccumulateTime s, dt')]\<rparr>)"
    unfolding s1_def by blast
qed

lemma st0_fields:
  "realtime st0 = 0x6000" "host_frametime st0 = 0x6004" "orig_Host_AccumulateTime st0 = 0x5000"
  "skiptime st0 = 0" "floats st0 = (\<lambda>_. 100)" "calls st0 = []" "out st0 = []"
  by (simp_all add: st0_def)

lemma atof_int_examples:
  "atof_int ''30'' = 30" "atof_int ''-5'' = - 5" "atof_int ''0'' = 0"
  by (simp_all add: atof_int_def)

theorem skip_applied_once_witness:
  "\<exists>s2. hook_Host_AccumulateTime 1 (sst_fastforward atof_int [''sst_fastforward'', ''30''] st0) =
       Return () s2 \<and>
     floats s2 = (\<lambda>_. 100)(0x6000 := 130, 0x6004 := 130) \<and> skiptime s2 = 0 \<and> calls s2 = [] \<and>
     hook_Host_AccumulateTime 2 s2 = Return () (s2\<lparr>calls := [(0x5000, 2)]\<rparr>)"
  using skip_applied_once [of atof_int "''30''" st0 1 "''sst_fastforward''" 2]
  by (simp add: st0_fields atof_int_examples NULL_def)

text \<open>
  The claim as stated covers every value. After a set to \<open>-5\<close> the next invocation
  of the hook leaves the pending amount at \<open>-5\<close> and both scalars as they were: it
  calls the original function instead.
\<close>

theorem negative_skip_not_consumed:
  "hook_Host_AccumulateTime 1 (sst_fastforward atof_int [''sst_fastforward'', ''-5''] st0) =
     Return () (st0\<lparr>skiptime := - 5, calls := [(0x5000, 1)]\<rparr>) \<and>
   skiptime (st0\<lparr>skiptime := - 5, calls := [(0x5000, 1)]\<rparr>) \<noteq> 0 \<and>
   floats (st0\<lparr>skiptime := - 5, calls := [(0x5000, 1)]\<rparr>) = floats st0"
  by (simp add: sst_fastforward_set atof_int_examples hook_pass st0_fields)

text \<open>
  Claim C7. Two sets before any consumption leave the second value pending: the
  state is the one the second command alone would have produced.
\<close>

theorem skip_request_overwrites:
  "skiptime (sst_fastforward atof [n2, a2] (sst_fastforward atof [n1, a1] s)) = atof a2 \<and>
   sst_fastforward atof [n2, a2] (sst_fastforward atof [n1, a1] s) =
     sst_fastforward atof [n2, a2] s"
  by (simp add: sst_fastforward_set)

text \<open>
  Claim C8. With an argument count other than one (\<open>argc\<close> other than 2) the
  command prints the usage message as a warning and changes nothing else: the pending
  amount is unchanged and no error is reported. With exactly one argument the pending
  amount becomes the value \<open>atof\<close> gives for it, and nothing else changes.
\<close>

theorem fastforward_usage:
  "(argc cmd \<noteq> 2 \<longrightarrow>
      sst_fastforward atof cmd s = s\<lparr>out := out s @ [Warn ''usage: sst_fastforward <time>'']\<rparr> \<and>
      skiptime (sst_fastforward atof cmd s) = skiptime s) \<and>
   (argc cmd = 2 \<longrightarrow> sst_fastforward atof cmd s = s\<lparr>skiptime := atof (cmd ! 1)\<rparr>)"
  by (simp add: sst_fastforward_def con_warn_def)

theorem fastforward_usage_witness:
  "sst_fastforward atof_int [''sst_fastforward''] st0 =
     st0\<lparr>out := [Warn ''usage: sst_fastforward <time>'']\<rparr> \<and>
   sst_fastforward atof_int [''sst_fastforward'', ''30'', ''40''] st0 =
     st0\<lparr>out := [Warn ''usage: sst_fastforward <time>'']\<rparr> \<and>
   sst_fastforward atof_int [''sst_fastforward'', ''30''] st0 = st0\<lparr>skiptime := 30\<rparr>"
  using fastforward_usage [of "[''sst_fastforward'']" atof_int st0]
    fastforward_usage [of "[''sst_fastforward'', ''30'', ''40'']" atof_int st0]
    fastforward_usage [of "[''sst_fastforward'', ''30'']" atof_int st0]
  by (simp add: argc_def st0_fields atof_int_examples)

text \<open>
  Claim C9. When the pending amount is greater than zero, the hook makes no call to
  the original function and its outcome does not depend on \<open>dt\<close>; with both scalars
  located, all it does is add the pending amount to the two scalars and clear it.
\<close>

theorem skip_frame_discards_dt:
  "0 < skiptime s \<longrightarrow>
     calls (final (hook_Host_AccumulateTime dt s)) = calls s \<and>
     hook_Host_AccumulateTime dt s = hook_Host_AccumulateTime dt' s \<and>
     (realtime s \<noteq> NULL \<and> host_frametime s \<noteq> NULL \<longrightarrow>
        hook_Host_AccumulateTime dt s =
          Return () ((add_float (host_frametime s) (skiptime s)
                       (add_float (realtime s) (skiptime s) s))\<lparr>skiptime := 0\<rparr>))"
  by (simp add: hook_Host_AccumulateTime_def add_float_def Let_def)

theorem skip_frame_discards_dt_witness:
  "calls (final (hook_Host_AccumulateTime 1 (st0\<lparr>skiptime := 30\<rparr>))) = [] \<and>
   hook_Host_AccumulateTime 1 (st0\<lparr>skiptime := 30\<rparr>) =
     hook_Host_AccumulateTime 2 (st0\<lparr>skiptime := 30\<rparr>) \<and>
   hook_Host_AccumulateTime 1 (st0\<lparr>skiptime := 30\<rparr>) =
     Return () (st0\<lparr>floats := (\<lambda>_. 100)(0x6000 := 130, 0x6004 := 130)\<rparr>)"
proof -
  let ?s = "st0\<lparr>skiptime := 30\<rparr>"
  have pending: "0 < skiptime ?s"
    by simp
  have located: "realtime ?s \<noteq> NULL \<and> host_frametime ?s \<noteq> NULL"
    by (simp add: st0_fields NULL_def)
  have "(add_float (host_frametime ?s) (skiptime ?s)
          (add_float (realtime ?s) (skiptime ?s) ?s))\<lparr>skiptime := 0\<rparr> =
        st0\<lparr>floats := (\<lambda>_. 100)(0x6000 := 130, 0x6004 := 130)\<rparr>"
    by (simp add: st0_def add_float_def)
  moreover have "calls ?s = []"
    by (simp add: st0_fields)
  ultimately show ?thesis
    using skip_frame_discards_dt [of ?s 1 2] pending located by metis
qed



lemma frames_pass:
  "skiptime s \<le> 0 \<Longrightarrow>
   frames dts s = Return () (s\<lparr>calls := calls s @ map (Pair (orig_Host_AccumulateTime s)) dts\<rparr>)"
proof (induction dts arbitrary: s)
  case Nil
  then show ?case by simp
next
  case (Cons dt dts)
  let ?s' = "s\<lparr>calls := calls s @ [(orig_Host_AccumulateTime s, dt)]\<rparr>"
  have "hook_Host_AccumulateTime dt s = Return () ?s'"
    using Cons.prems by (intro hook_pass) simp
  moreover have "frames dts ?s' =
      Return () (?s'\<lparr>calls := calls ?s' @ map (Pair (orig_Host_AccumulateTime ?s')) dts\<rparr>)"
    using Cons.prems by (intro Cons.IH) simp
  ultimately show ?case by simp
qed

text \<open>
  Claim C10. When the pending amount is zero or negative, an invocation of the hook
  calls the original function once with the caller's \<open>dt\<close> and changes nothing
  else: the pending amount and all floats stay as they are. Over any number of frames
  the amount is therefore never consumed and never cleared.
\<close>

theorem nonpositive_skip_passes_through:
  "skiptime s \<le> 0 \<longrightarrow>
     hook_Host_AccumulateTime dt s =
       Return () (s\<lparr>calls := calls s @ [(orig_Host_AccumulateTime s, dt)]\<rparr>) \<and>
     frames dts s =
       Return () (s\<lparr>calls := calls s @ map (Pair (orig_Host_AccumulateTime s)) dts\<rparr>)"
  using hook_pass [of s dt] frames_pass [of s dts] by simp

theorem nonpositive_skip_passes_through_witness:
  "hook_Host_AccumulateTime 1 (sst_fastforward atof_int [''sst_fastforward'', ''-5''] st0) =
     Return () (st0\<lparr>skiptime := - 5, calls := [(0x5000, 1)]\<rparr>) \<and>
   frames [1, 2, 3] (sst_fastforward atof_int [''sst_fastforward'', ''0''] st0) =
     Return () (st0\<lparr>skiptime := 0, calls := [(0x5000, 1), (0x5000, 2), (0x5000, 3)]\<rparr>)"
proof -
  let ?a = "st0\<lparr>skiptime := - 5\<rparr>" and ?b = "st0\<lparr>skiptime := 0\<rparr>"
  have set: "sst_fastforward atof_int [''sst_fastforward'', ''-5''] st0 = ?a"
    "sst_fastforward atof_int [''sst_fastforward'', ''0''] st0 = ?b"
    by (simp_all add: sst_fastforward_set atof_int_examples)
  have "skiptime ?a \<le> 0" and "skiptime ?b \<le> 0"
    by simp_all
  then have "hook_Host_AccumulateTime 1 ?a =
       Return () (?a\<lparr>calls := calls ?a @ [(orig_Host_AccumulateTime ?a, 1)]\<rparr>)"
    and "frames [1, 2, 3] ?b =
       Return () (?b\<lparr>calls := calls ?b @ map (Pair (orig_Host_AccumulateTime ?b)) [1, 2, 3]\<rparr>)"
    using nonpositive_skip_passes_through [of ?a 1 "[]"]
      nonpositive_skip_passes_through [of ?b 1 "[1, 2, 3]"]
    by blast+
  then show ?thesis
    unfolding set by (simp add: st0_fields del: frames.simps)
qed

section \<open>The inline hook engine\<close>

lemma peek_Suc: "peek m a (Suc n) = m a # peek m (a + 1) n"
proof -
  have "map (\<lambda>k. m (a + of_nat k)) [0..<Suc n] =
        m a # map (\<lambda>k. m (a + 1 + of_nat k)) [0..<n]"
    by (simp add: upt_rec [of 0] map_Suc_upt [symmetric] add.assoc del: upt_Suc)
  then show ?thesis
    by (simp add: peek_def)
qed

lemma span_Suc:
  "(\<lambda>k. a + of_nat k) ` {..<Suc n} = insert (a :: addr) ((\<lambda>k. a + 1 + of_nat k) ` {..<n})"
proof -
  have "{..<Suc n} = insert 0 (Suc ` {..<n})"
    by (auto simp: lessThan_Suc_eq_insert_0)
  then show ?thesis
    by (simp add: image_image add.assoc)
qed

lemma poke_outside:
  "x \<notin> (\<lambda>k. a + of_nat k) ` {..<length bs} \<Longrightarrow> poke m a bs x = m x"
proof (induction bs arbitrary: m a)
  case Nil
  then show ?case by simp
next
  case (Cons b bs)
  from Cons.prems have "x \<noteq> a" and "x \<notin> (\<lambda>k. a + 1 + of_nat k) ` {..<length bs}"
    by (simp_all add: span_Suc)
  then show ?case
    by (simp add: Cons.IH)
qed

lemma poke_peek:
  "poke m a (peek m0 a n) =
     (\<lambda>x. if x \<in> (\<lambda>k. a + of_nat k) ` {..<n} then m0 x else m x)"
proof (induction n arbitrary: m a)
  case 0
  then show ?case by (simp add: peek_def)
next
  case (Suc n)
  have "poke m a (peek m0 a (Suc n)) = poke (m(a := m0 a)) (a + 1) (peek m0 (a + 1) n)"
    by (simp add: peek_Suc)
  also have "\<dots> = (\<lambda>x. if x \<in> (\<lambda>k. a + 1 + of_nat k) ` {..<n} then m0 x
                       else (m(a := m0 a)) x)"
    by (rule Suc.IH)
  also have "\<dots> = (\<lambda>x. if x \<in> insert a ((\<lambda>k. a + 1 + of_nat k) ` {..<n}) then m0 x
                       else m x)"
    by (rule ext) simp
  finally show ?case
    by (simp only: span_Suc)
qed

lemma poke_restore:
  assumes "length bs \<le> n"
  shows "poke (poke m a bs) a (peek m a n) = m"
proof
  fix x
  show "poke (poke m a bs) a (peek m a n) x = m x"
  proof (cases "x \<in> (\<lambda>k. a + of_nat k) ` {..<n}")
    case True
    then show ?thesis by (simp add: poke_peek)
  next
    case False
    with assms have "x \<notin> (\<lambda>k. a + of_nat k) ` {..<length bs}"
      by auto
    then show ?thesis
      using False by (simp add: poke_peek poke_outside)
  qed
qed

lemma retained_length_covers:
  "retained_length x86_len m target n = Some k \<Longrightarrow> 5 \<le> k"
proof (induction x86_len m target n rule: retained_length.induct)
  case (1 x86_len m target n)
  show ?case
  proof (cases "5 \<le> n")
    case True
    with "1.prems" show ?thesis
      by (simp add: retained_length.simps [of x86_len m target n])
  next
    case False
    show ?thesis
    proof (cases "x86_len m (target + of_nat n) < 1")
      case True
      with False "1.prems" show ?thesis
        by (simp add: retained_length.simps [of x86_len m target n])
    next
      case sized: False
      with False "1.prems" have "retained_length x86_len m target
          (n + nat (x86_len m (target + of_nat n))) = Some k"
        by (simp add: retained_length.simps [of x86_len m target n])
      with "1.IH" False sized show ?thesis
        by simp
    qed
  qed
qed

lemma length_jmp_rel32: "length (jmp_rel32 src dest) = 5"
  by (simp add: jmp_rel32_def le32_def)

text \<open>
  Claim C6. Whenever install succeeds, uninstalling the record it returns gives back
  the target memory exactly as it was before the install and marks the record
  uninstalled, and a second uninstall changes neither the memory nor the record.
\<close>

theorem hook_round_trip:
  "install x86_len writable tramp text store target replacement = Inr (text', store', r) \<longrightarrow>
     installed r \<and>
     fst (uninstall text' r) = text \<and>
     \<not> installed (snd (uninstall text' r)) \<and>
     uninstall (fst (uninstall text' r)) (snd (uninstall text' r)) = uninstall text' r"
proof
  assume inst: "install x86_len writable tramp text store target replacement =
    Inr (text', store', r)"
  then obtain n where n: "retained_length x86_len text target 0 = Some n"
    and t': "text' = poke text target (jmp_rel32 target replacement)"
    and r: "r = \<lparr>targetAddress = target, originalBytes = peek text target n,
                    trampolineAddress = tramp, installed = True\<rparr>"
    by (auto simp: install_def Let_def split: if_splits option.splits)
  have "5 \<le> n"
    using n by (rule retained_length_covers)
  then have "poke text' target (peek text target n) = text"
    unfolding t' by (intro poke_restore) (simp add: length_jmp_rel32)
  then show "installed r \<and>
     fst (uninstall text' r) = text \<and>
     \<not> installed (snd (uninstall text' r)) \<and>
     uninstall (fst (uninstall text' r)) (snd (uninstall text' r)) = uninstall text' r"
    by (simp add: uninstall_def r)
qed

lemma target_fn_bytes:
  "target_fn 0x1A000 = 0x55" "target_fn 0x1A001 = 0x8B" "target_fn 0x1A002 = 0xEC"
  "target_fn 0x1A003 = 0xD9" "target_fn 0x1A004 = 0x45" "target_fn 0x1A005 = 0x08"
  "target_fn 0x1A006 = 0xC3"
  by (simp_all add: target_fn_def segments_def)

lemma target_fn_retained: "retained_length toy_len target_fn 0x1A000 0 = Some 6"
  by (simp add: toy_len_def target_fn_bytes retained_length.simps)


lemma target_fn_install:
  "\<exists>store'. install toy_len (\<lambda>_. True) 0x20000 target_fn (\<lambda>_. 0) 0x1A000 0x30000 =
     Inr (hooked_fn, store', hooked_rec)"
  by (simp add: install_def target_fn_retained hooked_fn_def hooked_rec_def peek_def
      target_fn_bytes upt_rec [of _ 6])

theorem hook_round_trip_witness:
  "hooked_fn 0x1A000 = 0xE9 \<and>
   fst (uninstall hooked_fn hooked_rec) = target_fn \<and>
   \<not> installed (snd (uninstall hooked_fn hooked_rec)) \<and>
   uninstall (fst (uninstall hooked_fn hooked_rec)) (snd (uninstall hooked_fn hooked_rec)) =
     uninstall hooked_fn hooked_rec"
proof -
  obtain store' where
    "install toy_len (\<lambda>_. True) 0x20000 target_fn (\<lambda>_. 0) 0x1A000 0x30000 =
       Inr (hooked_fn, store', hooked_rec)"
    using target_fn_install by blast
  then have "fst (uninstall hooked_fn hooked_rec) = target_fn \<and>
     \<not> installed (snd (uninstall hooked_fn hooked_rec)) \<and>
     uninstall (fst (uninstall hooked_fn hooked_rec)) (snd (uninstall hooked_fn hooked_rec)) =
       uninstall hooked_fn hooked_rec"
    using hook_round_trip [of toy_len "\<lambda>_. True" "0x20000" target_fn "\<lambda>_. 0" "0x1A000"
        "0x30000" hooked_fn store' hooked_rec]
    by blast
  moreover have "hooked_fn 0x1A000 = 0xE9"
    by (simp add: hooked_fn_def jmp_rel32_def le32_def)
  ultimately show ?thesis by blast
qed

section \<open>Initialisation on the synthetic image\<close>

lemmas img = engine_image_def segments_def

lemma img_load32:
  "mem_load32 (engine_image g) 0x10000 = 0x10100"
  "mem_load32 (engine_image g) 0x10100 = 0x10200"
  "mem_load32 (engine_image g) 0x10104 = 0x10210"
  "mem_load32 (engine_image g) 0x11000 = 0x11100"
  "mem_load32 (engine_image g) 0x11100 = 0x12000"
  "mem_load32 (engine_image g) 0x12002 = 0x13000"
  "mem_load32 (engine_image g) 0x13000 = 0x13100"
  "mem_load32 (engine_image g) 0x13100 = 0x13200"
  "mem_load32 (engine_image g) 0x13200 = 0x14000"
  by (simp_all add: img mem_load32_def)

lemma img_slots:
  "vtable_slot (engine_image g) 0x10000 0 = Some 0x10200"
  "vtable_slot (engine_image g) 0x10000 1 = Some 0x10210"
  "vtable_slot (engine_image g) 0x11000 0 = Some 0x12000"
  "vtable_slot (engine_image g) 0x13100 0 = Some 0x14000"
  by (simp_all add: vtable_slot_def load_ptr_def mem_loadptr_def NULL_def img_load32)

lemma img_runframe:
  "engine_image g 0x12000 = 0x8B"
  "engine_image g 0x12001 = 0x0D"
  by (simp_all add: img)

lemma img_frame:
  "engine_image g 0x14000 = 0x83"
  "engine_image g 0x14001 = 0xF8"
  "engine_image g 0x14002 = 0x02"
  "engine_image g 0x14003 = 0xE8"
  "engine_image g 0x14004 = 0xF8"
  "engine_image g 0x14005 = 0x0F"
  "engine_image g 0x14006 = 0x00"
  "engine_image g 0x14007 = 0x00"
  by (simp_all add: img)

lemma img_hoststate:
  "engine_image g 0x15000 = 0xE8"
  "engine_image g 0x15001 = 0xFB"
  "engine_image g 0x15002 = 0x0F"
  "engine_image g 0x15003 = 0x00"
  "engine_image g 0x15004 = 0x00"
  by (simp_all add: img)

lemma img_frameupdate:
  "engine_image g 0x16000 = 0xD9"
  "engine_image g 0x16001 = 0xC0"
  "engine_image g 0x16002 = 0xE8"
  "engine_image g 0x16003 = 0xF9"
  "engine_image g 0x16004 = 0x0F"
  "engine_image g 0x16005 = 0x00"
  "engine_image g 0x16006 = 0x00"
  by (simp_all add: img)

lemma img_state_run:
  "engine_image g 0x17000 = 0xD9"
  "engine_image g 0x17001 = 0xC0"
  "engine_image g 0x17002 = 0xE8"
  "engine_image g 0x17003 = 0xF9"
  "engine_image g 0x17004 = 0x0F"
  "engine_image g 0x17005 = 0x00"
  "engine_image g 0x17006 = 0x00"
  by (simp_all add: img)

lemma img_host_runframe:
  "engine_image g 0x18000 = 0xD9"
  "engine_image g 0x18001 = 0xC0"
  "engine_image g 0x18002 = 0xE8"
  "engine_image g 0x18003 = 0xF9"
  "engine_image g 0x18004 = 0x0F"
  "engine_image g 0x18005 = 0x00"
  "engine_image g 0x18006 = 0x00"
  by (simp_all add: img)

lemma img_host_runframe2:
  "engine_image g 0x19000 = 0xD9"
  "engine_image g 0x19001 = 0x45"
  "engine_image g 0x19002 = 0x08"
  "engine_image g 0x19003 = 0xE8"
  "engine_image g 0x19004 = 0xF8"
  "engine_image g 0x19005 = 0x0F"
  "engine_image g 0x19006 = 0x00"
  "engine_image g 0x19007 = 0x00"
  by (simp_all add: img)

lemma img_accumulate:
  "engine_image g 0x1A000 = 0x55"
  "engine_image g 0x1A001 = 0x8B"
  "engine_image g 0x1A002 = 0xEC"
  "engine_image g 0x1A003 = 0xD9"
  "engine_image g 0x1A004 = 0x45"
  "engine_image g 0x1A005 = 0x08"
  "engine_image g 0x1A006 = 0xC3"
  by (simp_all add: img)


lemmas x86 = X86_FLTBLK2_def X86_CALL_def X86_ALUMI8S_def X86_MOVRMW_def X86_MODRM_def

lemma img_eng: "eng_loop toy_len (engine_image g) 0x12000 0 = Some (Hit 0x13000)"
  by (simp add: eng_loop.simps x86 mem_loadptr_def img_load32 img_runframe)

lemma img_hoststate_frame:
  "hoststate_loop toy_len (engine_image g) 0x14000 0 False = Some (Hit 0x15000)"
  by (simp add: hoststate_loop.simps x86 toy_len_def mem_load32_def img_frame)

lemma img_frameupdate_call:
  "frameupdate_loop toy_len (engine_image g) 0x15000 0 = Some (Hit 0x16000)"
  by (simp add: frameupdate_loop.simps x86 toy_len_def mem_load32_def img_hoststate)

lemma img_floatcalls:
  "find_floatcall toy_len (engine_image g) 0x16000 name = Some (0x17000, [])"
  "find_floatcall toy_len (engine_image g) 0x17000 name = Some (0x18000, [])"
  "find_floatcall toy_len (engine_image g) 0x18000 name = Some (0x19000, [])"
  by (simp_all add: find_floatcall_def floatcall_loop.simps x86 toy_len_def mem_load32_def
      img_frameupdate img_state_run img_host_runframe)

lemma img_accumulate_call:
  "accumulate_loop toy_len (engine_image g) 0x19000 0 False = Some (Hit 0x1A000)"
  by (simp add: accumulate_loop.simps x86 toy_len_def mem_load32_def img_host_runframe2)


lemma gd0_fields:
  "vtidx_RunFrame gd0 = 0" "vtidx_Frame gd0 = 0" "vtidx_GetRealTime gd0 = 0"
  "vtidx_HostFrameTime gd0 = 1"
  by (simp_all add: gd0_def)

lemma img_find:
  assumes "bytes s = engine_image g"
  shows "find_Host_AccumulateTime toy_len factory_both gd0 s =
     Some (Return True (s\<lparr>orig_Host_AccumulateTime := 0x1A000\<rparr>))"
proof -
  have last: "find_in_host_runframe toy_len 0x19000 s =
      Some (Return True (s\<lparr>orig_Host_AccumulateTime := 0x1A000\<rparr>))"
    by (simp add: find_in_host_runframe_def assms img_accumulate_call NULL_def)
  have "find_from_frameupdate toy_len 0x16000 s =
      Some (Return True (s\<lparr>orig_Host_AccumulateTime := 0x1A000\<rparr>))"
    by (simp add: find_from_frameupdate_def assms img_floatcalls NULL_def last)
  then have "find_from_frame toy_len 0x14000 s =
      Some (Return True (s\<lparr>orig_Host_AccumulateTime := 0x1A000\<rparr>))"
    by (simp add: find_from_frame_def assms img_hoststate_frame img_frameupdate_call NULL_def)
  then show ?thesis
    by (simp add: find_Host_AccumulateTime_def factory_both_def gd0_fields assms img_slots
        img_eng load_ptr_def mem_loadptr_def img_load32 NULL_def)
qed

lemma img_retained: "retained_length toy_len (engine_image g) 0x1A000 0 = Some 6"
  by (simp add: toy_len_def img_accumulate retained_length.simps)

lemma img_peek:
  "peek (engine_image g) 0x1A000 6 = [0x55, 0x8B, 0xEC, 0xD9, 0x45, 0x08]"
  by (simp add: peek_def img_accumulate upt_rec [of _ 6])

lemma img_hook:
  assumes "bytes s = engine_image g"
  shows "hook_inline toy_len (\<lambda>_. True) 0x20000 0x1A000 0x30000 s =
     (0x20000,
      s\<lparr>bytes := poke (engine_image g) 0x1A000 (jmp_rel32 0x1A000 0x30000),
        arena := poke (arena s) 0x20000
          ([0x55, 0x8B, 0xEC, 0xD9, 0x45, 0x08] @ jmp_rel32 0x20006 0x1A006),
        hooks := (hooks s)(0x20000 \<mapsto> hooked_rec)\<rparr>)"
  by (simp add: hook_inline_def install_def assms img_retained img_peek hooked_rec_def)

lemma img_getters:
  "floatgetter (engine_image plain_accessor) 0x10200 = 0x6000"
  "floatgetter (engine_image framed_accessor) 0x10200 = NULL"
  "floatgetter (engine_image g) 0x10210 = 0x6004"
  by (simp_all add: floatgetter_def mem_loadptr_def mem_load32_def x86 img plain_accessor_def
      framed_accessor_def)

lemma img_init:
  "INIT toy_len (\<lambda>_. True) 0x20000 0x30000 factory_both gd0 (loaded g) =
     Some (Return True (hooked_state g (floatgetter (engine_image g) 0x10200)))"
proof -
  let ?s2 = "(loaded g)\<lparr>realtime := floatgetter (engine_image g) 0x10200,
      host_frametime := floatgetter (engine_image g) 0x10210\<rparr>"
  let ?s3 = "?s2\<lparr>orig_Host_AccumulateTime := 0x1A000\<rparr>"
  have lb: "bytes (loaded g) = engine_image g"
    by (simp add: loaded_def)
  have found: "find_Host_AccumulateTime toy_len factory_both gd0 ?s2 = Some (Return True ?s3)"
    by (rule img_find [of _ g]) (simp add: lb)
  have hooked: "hook_inline toy_len (\<lambda>_. True) 0x20000 0x1A000 0x30000 ?s3 =
     (0x20000,
      ?s3\<lparr>bytes := poke (engine_image g) 0x1A000 (jmp_rel32 0x1A000 0x30000),
        arena := poke (arena ?s3) 0x20000
          ([0x55, 0x8B, 0xEC, 0xD9, 0x45, 0x08] @ jmp_rel32 0x20006 0x1A006),
        hooks := (hooks ?s3)(0x20000 \<mapsto> hooked_rec)\<rparr>)"
    by (rule img_hook [of _ g]) (simp add: lb)
  have "INIT toy_len (\<lambda>_. True) 0x20000 0x30000 factory_both gd0 (loaded g) =
     Some (Return True
       ((?s3\<lparr>bytes := poke (engine_image g) 0x1A000 (jmp_rel32 0x1A000 0x30000),
        arena := poke (arena ?s3) 0x20000
          ([0x55, 0x8B, 0xEC, 0xD9, 0x45, 0x08] @ jmp_rel32 0x20006 0x1A006),
        hooks := (hooks ?s3)(0x20000 \<mapsto> hooked_rec)\<rparr>)
        \<lparr>orig_Host_AccumulateTime := 0x20000\<rparr>))"
    unfolding INIT_def
    by (simp add: factory_both_def gd0_fields NULL_def lb img_slots found hooked Let_def)
  then show ?thesis
    by (simp add: hooked_state_def loaded_def img_getters)
qed

lemma find_without_hlds:
  "factory_engine ''VENGINE_HLDS_API_VERSION002'' = NULL \<Longrightarrow>
   find_Host_AccumulateTime x86_len factory_engine gd s =
     Some (NullDeref (errmsg_errorx ''missing hlds api interface'' s))"
  by (simp add: find_Host_AccumulateTime_def vtable_slot_def load_ptr_def)

text \<open>
  At the level of the plugin: \<open>END\<close> after a successful \<open>INIT\<close> gives the image
  its original bytes back, and a second \<open>END\<close> changes nothing.
\<close>

lemma init_end_round_trip:
  "bytes (END (hooked_state g rt)) = engine_image g \<and>
   END (END (hooked_state g rt)) = END (hooked_state g rt)"
proof -
  have "poke (poke (engine_image g) 0x1A000 (jmp_rel32 0x1A000 0x30000)) 0x1A000
          (peek (engine_image g) 0x1A000 6) = engine_image g"
    by (rule poke_restore) (simp add: length_jmp_rel32)
  then have restore: "poke (poke (engine_image g) 0x1A000 (jmp_rel32 0x1A000 0x30000)) 0x1A000
          [0x55, 0x8B, 0xEC, 0xD9, 0x45, 0x08] = engine_image g"
    by (simp only: img_peek)
  have e: "END (hooked_state g rt) =
      (hooked_state g rt)\<lparr>bytes := engine_image g,
        hooks := [0x20000 \<mapsto> hooked_rec\<lparr>installed := False\<rparr>]\<rparr>"
    using restore
    by (simp add: END_def unhook_inline_def uninstall_def hooked_state_def hooked_rec_def
        loaded_def del: poke.simps)
  show ?thesis
    unfolding e
    by (simp add: END_def unhook_inline_def uninstall_def hooked_state_def hooked_rec_def
        loaded_def del: poke.simps)
qed

text \<open>
  Claim C3 says that \<open>INIT\<close> fails when the extractor finds no value for either
  accessor. The code does not test what \<open>floatgetter\<close> returns. On the image whose
  \<open>GetRealTime\<close> accessor starts with a frame prologue the extractor returns \<open>NULL\<close>
  (\<open>img_getters\<close>), and \<open>INIT\<close> still returns true: nothing is reported, \<open>realtime\<close> is left null and
  the hook is installed over \<open>Host_AccumulateTime\<close>. The first fast-forward after
  that dereferences the null pointer in the hook.
\<close>

theorem init_ignores_unsupported_accessor:
  "INIT toy_len (\<lambda>_. True) 0x20000 0x30000 factory_both gd0 (loaded framed_accessor) =
     Some (Return True (hooked_state framed_accessor NULL)) \<and>
   out (hooked_state framed_accessor NULL) = [] \<and>
   realtime (hooked_state framed_accessor NULL) = NULL \<and>
   peek (bytes (hooked_state framed_accessor NULL)) 0x1A000 5 = jmp_rel32 0x1A000 0x30000 \<and>
   hook_Host_AccumulateTime 1
       (sst_fastforward atof_int [''sst_fastforward'', ''30''] (hooked_state framed_accessor NULL)) =
     NullDeref ((hooked_state framed_accessor NULL)\<lparr>skiptime := 30\<rparr>)"
proof -
  let ?s = "hooked_state framed_accessor NULL"
  have "INIT toy_len (\<lambda>_. True) 0x20000 0x30000 factory_both gd0 (loaded framed_accessor) =
     Some (Return True ?s)"
    using img_init [of framed_accessor] by (simp add: img_getters)
  moreover have "out ?s = []" "realtime ?s = NULL"
    by (simp_all add: hooked_state_def loaded_def)
  moreover have "peek (bytes ?s) 0x1A000 5 = jmp_rel32 0x1A000 0x30000"
    by (simp add: hooked_state_def peek_def jmp_rel32_def le32_def upt_rec [of _ 5])
  moreover have "hook_Host_AccumulateTime 1
       (sst_fastforward atof_int [''sst_fastforward'', ''30''] ?s) =
     NullDeref (?s\<lparr>skiptime := 30\<rparr>)"
    using \<open>realtime ?s = NULL\<close>
    by (simp add: sst_fastforward_set atof_int_examples hook_Host_AccumulateTime_def)
  ultimately show ?thesis
    by simp
qed

text \<open>
  Claim C4 says that \<open>INIT\<close> fails, with no further work on the null handle, when
  either interface lookup returns null. For the engine tool interface the code does
  so (second conjunct). For the dedicated server API it reports the error and then
  goes on without returning: the next statement loads the vtable through the null
  handle (first conjunct).
\<close>

theorem init_dereferences_missing_hlds:
  "INIT toy_len (\<lambda>_. True) 0x20000 0x30000 factory_no_hlds gd0 (loaded plain_accessor) =
     Some (NullDeref ((loaded plain_accessor)
       \<lparr>realtime := 0x6000, host_frametime := 0x6004,
        out := [Errorx ''missing hlds api interface'']\<rparr>)) \<and>
   INIT toy_len (\<lambda>_. True) 0x20000 0x30000 factory_no_tool gd0 (loaded plain_accessor) =
     Some (Return False ((loaded plain_accessor)
       \<lparr>out := [Errorx ''missing engine tool interface'']\<rparr>))"
proof -
  let ?s2 = "(loaded plain_accessor)\<lparr>realtime := 0x6000, host_frametime := 0x6004\<rparr>"
  have lb: "bytes (loaded plain_accessor) = engine_image plain_accessor"
    by (simp add: loaded_def)
  have "find_Host_AccumulateTime toy_len factory_no_hlds gd0 ?s2 =
     Some (NullDeref (errmsg_errorx ''missing hlds api interface'' ?s2))"
    by (rule find_without_hlds) (simp add: factory_no_hlds_def)
  then have "INIT toy_len (\<lambda>_. True) 0x20000 0x30000 factory_no_hlds gd0
      (loaded plain_accessor) =
     Some (NullDeref (errmsg_errorx ''missing hlds api interface'' ?s2))"
    unfolding INIT_def
    by (simp add: factory_no_hlds_def gd0_fields NULL_def lb img_slots img_getters Let_def)
  moreover have "INIT toy_len (\<lambda>_. True) 0x20000 0x30000 factory_no_tool gd0
      (loaded plain_accessor) =
     Some (Return False (errmsg_errorx ''missing engine tool interface'' (loaded plain_accessor)))"
    by (simp add: INIT_def factory_no_tool_def)
  ultimately show ?thesis
    by (simp add: errmsg_errorx_def loaded_def)
qed

end
